theory Spec2Isabelle
  imports Main "HOL-Library.Word"
begin

unbundle bit_operations_syntax

section \<open>Python values: bytes, errors and the struct module\<close>

text \<open>
  The module \<^verbatim>\<open>umodbus/functions.py\<close> is a set of pure functions from Python
  integers and lists to \<^verbatim>\<open>bytes\<close>. Python integers are unbounded and are
  modelled as \<open>int\<close>; a \<^verbatim>\<open>bool\<close> inside a list of coil values is the
  integer 0 or 1 (in Python \<^verbatim>\<open>bool\<close> is a subtype of \<^verbatim>\<open>int\<close>, and
  the code only applies \<^verbatim>\<open>|\<close> and \<^verbatim>\<open>struct.pack\<close> to such values).
  A \<^verbatim>\<open>bytes\<close> object is a list of 8-bit words. Every \<^verbatim>\<open>raise\<close> is a
  value \<open>Inl e\<close> of the result type.
\<close>

type_synonym byte = "8 word"
type_synonym bytes = "8 word list"

datatype error =
    ValueError string
  | StructError
  | TypeError
  | OverflowError

text \<open>
  \<open>ValueError msg\<close> is \<^verbatim>\<open>raise ValueError(msg)\<close> of functions.py,
  \<open>StructError\<close> is \<^verbatim>\<open>struct.error\<close> (raised by \<^verbatim>\<open>struct.pack\<close> and
  \<^verbatim>\<open>struct.unpack\<close>), \<open>TypeError\<close> is what \<^verbatim>\<open>len(None)\<close> raises,
  \<open>OverflowError\<close> what \<^verbatim>\<open>struct.pack\<close> raises for a float too large for the
  format \<^verbatim>\<open>f\<close>.

  The format strings of the module all start with the byte order mark for big-endian,
  standard sizes, no padding, followed by the codes \<^verbatim>\<open>B\<close> (unsigned byte),
  \<^verbatim>\<open>H\<close> (unsigned 16 bit) and \<^verbatim>\<open>h\<close> (signed 16 bit). A format is
  the list of its codes. \<^verbatim>\<open>struct.pack\<close> is the one of the Python language
  reference (CPython): it raises \<^verbatim>\<open>struct.error\<close> when the number of values
  differs from the number of codes and when a value is outside the range of its code; it
  never truncates. \<^verbatim>\<open>struct.unpack\<close> raises \<^verbatim>\<open>struct.error\<close> unless the
  buffer has exactly the size of the format.
\<close>

datatype fmt_code = Fmt_B | Fmt_H | Fmt_h

fun fmt_range :: "fmt_code \<Rightarrow> int \<Rightarrow> bool" where
  "fmt_range Fmt_B v = (0 \<le> v \<and> v \<le> 255)"
| "fmt_range Fmt_H v = (0 \<le> v \<and> v \<le> 65535)"
| "fmt_range Fmt_h v = (- 32768 \<le> v \<and> v \<le> 32767)"

definition big_endian16 :: "int \<Rightarrow> bytes" where
  "big_endian16 v = [word_of_int (v div 256), word_of_int (v mod 256)]"

fun field_bytes :: "fmt_code \<Rightarrow> int \<Rightarrow> bytes" where
  "field_bytes Fmt_B v = [word_of_int v]"
| "field_bytes Fmt_H v = big_endian16 v"
| "field_bytes Fmt_h v = big_endian16 (v mod 65536)"

definition pack_field :: "fmt_code \<Rightarrow> int \<Rightarrow> error + bytes" where
  "pack_field c v =
     (if \<not> fmt_range c v then Inl StructError else Inr (field_bytes c v))"

fun struct_pack :: "fmt_code list \<Rightarrow> int list \<Rightarrow> error + bytes" where
  "struct_pack [] [] = Inr []"
| "struct_pack (c # cs) (v # vs) =
     (case pack_field c v of
        Inl e \<Rightarrow> Inl e
      | Inr bs \<Rightarrow> (case struct_pack cs vs of
                     Inl e \<Rightarrow> Inl e
                   | Inr rest \<Rightarrow> Inr (bs @ rest)))"
| "struct_pack _ _ = Inl StructError"

definition unsigned16 :: "byte \<Rightarrow> byte \<Rightarrow> int" where
  "unsigned16 hi lo = uint hi * 256 + uint lo"

definition signed16 :: "byte \<Rightarrow> byte \<Rightarrow> int" where
  "signed16 hi lo =
     (let u = unsigned16 hi lo in if u < 32768 then u else u - 65536)"

fun struct_unpack :: "fmt_code list \<Rightarrow> bytes \<Rightarrow> error + int list" where
  "struct_unpack [] [] = Inr []"
| "struct_unpack (Fmt_B # cs) (b # data) =
     (case struct_unpack cs data of
        Inl e \<Rightarrow> Inl e
      | Inr vs \<Rightarrow> Inr (uint b # vs))"
| "struct_unpack (Fmt_H # cs) (hi # lo # data) =
     (case struct_unpack cs data of
        Inl e \<Rightarrow> Inl e
      | Inr vs \<Rightarrow> Inr (unsigned16 hi lo # vs))"
| "struct_unpack (Fmt_h # cs) (hi # lo # data) =
     (case struct_unpack cs data of
        Inl e \<Rightarrow> Inl e
      | Inr vs \<Rightarrow> Inr (signed16 hi lo # vs))"
| "struct_unpack _ _ = Inl StructError"

text \<open>\<^verbatim>\<open>struct.calcsize\<close>: the number of bytes of a format.\<close>

fun calcsize :: "fmt_code list \<Rightarrow> nat" where
  "calcsize [] = 0"
| "calcsize (Fmt_B # cs) = 1 + calcsize cs"
| "calcsize (Fmt_H # cs) = 2 + calcsize cs"
| "calcsize (Fmt_h # cs) = 2 + calcsize cs"

section \<open>The function codes\<close>

text \<open>
  Modelled from the spec: the module \<^verbatim>\<open>umodbus/const.py\<close> that functions.py
  imports as \<^verbatim>\<open>Const\<close> is not among the sources. The values of its constants
  are those of the spec's data model: ReadCoils=1, ReadDiscreteInputs=2,
  ReadHoldingRegisters=3, ReadInputRegisters=4, WriteSingleCoil=5, WriteSingleRegister=6,
  WriteMultipleCoils=15, WriteMultipleRegisters=16, ErrorBias=0x80.
\<close>

definition READ_COILS :: int where
  "READ_COILS = 1"

definition READ_DISCRETE_INPUTS :: int where
  "READ_DISCRETE_INPUTS = 2"

definition READ_HOLDING_REGISTERS :: int where
  "READ_HOLDING_REGISTERS = 3"

definition READ_INPUT_REGISTER :: int where
  "READ_INPUT_REGISTER = 4"

definition WRITE_SINGLE_COIL :: int where
  "WRITE_SINGLE_COIL = 5"

definition WRITE_SINGLE_REGISTER :: int where
  "WRITE_SINGLE_REGISTER = 6"

definition WRITE_MULTIPLE_COILS :: int where
  "WRITE_MULTIPLE_COILS = 15"

definition WRITE_MULTIPLE_REGISTERS :: int where
  "WRITE_MULTIPLE_REGISTERS = 16"

definition ERROR_BIAS :: int where
  "ERROR_BIAS = 128"

section \<open>Request PDUs\<close>

definition read_coils :: "int \<Rightarrow> int \<Rightarrow> error + bytes" where
  "read_coils starting_address quantity =
     (if \<not> (1 \<le> quantity \<and> quantity \<le> 2000)
      then Inl (ValueError ''Invalid number of coils'')
      else struct_pack [Fmt_B, Fmt_H, Fmt_H] [READ_COILS, starting_address, quantity])"

definition read_discrete_inputs :: "int \<Rightarrow> int \<Rightarrow> error + bytes" where
  "read_discrete_inputs starting_address quantity =
     (if \<not> (1 \<le> quantity \<and> quantity \<le> 2000)
      then Inl (ValueError ''Invalid number of discrete inputs'')
      else struct_pack [Fmt_B, Fmt_H, Fmt_H]
             [READ_DISCRETE_INPUTS, starting_address, quantity])"

definition read_holding_registers :: "int \<Rightarrow> int \<Rightarrow> error + bytes" where
  "read_holding_registers starting_address quantity =
     (if \<not> (1 \<le> quantity \<and> quantity \<le> 125)
      then Inl (ValueError ''Invalid number of holding registers'')
      else struct_pack [Fmt_B, Fmt_H, Fmt_H]
             [READ_HOLDING_REGISTERS, starting_address, quantity])"

definition read_input_registers :: "int \<Rightarrow> int \<Rightarrow> error + bytes" where
  "read_input_registers starting_address quantity =
     (if \<not> (1 \<le> quantity \<and> quantity \<le> 125)
      then Inl (ValueError ''Invalid number of input registers'')
      else struct_pack [Fmt_B, Fmt_H, Fmt_H]
             [READ_INPUT_REGISTER, starting_address, quantity])"

text \<open>
  \<^verbatim>\<open>write_single_coil\<close> takes \<^verbatim>\<open>Union[int, bool]\<close>. The argument keeps its
  Python type here, since the claim about it tells a boolean from an integer. Python
  compares a \<^verbatim>\<open>bool\<close> with an \<^verbatim>\<open>int\<close> by value (\<^verbatim>\<open>True == 1\<close>,
  \<^verbatim>\<open>False == 0\<close>), and \<^verbatim>\<open>x in xs\<close> uses that equality.
\<close>

datatype py_value = PyInt int | PyBool bool

fun int_of :: "py_value \<Rightarrow> int" where
  "int_of (PyInt i) = i"
| "int_of (PyBool b) = (if b then 1 else 0)"

definition py_eq :: "py_value \<Rightarrow> py_value \<Rightarrow> bool" where
  "py_eq x y = (int_of x = int_of y)"

definition py_in :: "py_value \<Rightarrow> py_value list \<Rightarrow> bool" where
  "py_in x ys = list_ex (py_eq x) ys"

definition truthy :: "py_value \<Rightarrow> bool" where
  "truthy x = (int_of x \<noteq> 0)"

definition write_single_coil :: "int \<Rightarrow> py_value \<Rightarrow> error + bytes" where
  "write_single_coil output_address output_value =
     (if \<not> py_in output_value [PyInt 0x0000, PyInt 0xFF00, PyBool True]
      then Inl (ValueError ''Illegal coil value'')
      else
        let output_value' =
              (if \<not> py_in output_value [PyInt 0x0000, PyInt 0xFF00]
               then (if truthy output_value then PyInt 0xFF00 else PyInt 0x0000)
               else output_value)
        in struct_pack [Fmt_B, Fmt_H, Fmt_H]
             [WRITE_SINGLE_COIL, output_address, int_of output_value'])"

definition write_single_register :: "int \<Rightarrow> int \<Rightarrow> bool \<Rightarrow> error + bytes" where
  "write_single_register register_address register_value signed' =
     (let fmt = (if signed' then Fmt_h else Fmt_H)
      in struct_pack ([Fmt_B, Fmt_H] @ [fmt])
           [WRITE_SINGLE_REGISTER, register_address, register_value])"

subsection \<open>Packing coil values into bytes\<close>

text \<open>
  The same loop stands in \<^verbatim>\<open>write_multiple_coils\<close> (lines 170 to 179) and in
  \<^verbatim>\<open>response\<close> (lines 270 to 279):
  \<^verbatim>\<open>
  sectioned_list = [value_list[i:i + 8] for i in range(0, len(value_list), 8)]
  output_value = []
  for index, byte in enumerate(sectioned_list):
      output = 0
      for bit in byte:
          output = (output << 1) | bit
      output_value.append(output)
  \<close>
  \<^verbatim>\<open>range(0, n, 8)\<close> is \<open>0, 8, ...\<close> below \<open>n\<close>, that is \<open>8 * k\<close> for
  \<open>k < (n + 7) div 8\<close>; the slice \<^verbatim>\<open>value_list[i:i + 8]\<close> stops at the end of
  the list.
\<close>

definition sectioned_list :: "'a list \<Rightarrow> 'a list list" where
  "sectioned_list value_list =
     map (\<lambda>k. take 8 (drop (8 * k) value_list)) [0 ..< (length value_list + 7) div 8]"

definition output_byte :: "int list \<Rightarrow> int" where
  "output_byte byte = fold (\<lambda>bit output. push_bit 1 output OR bit) byte 0"

definition output_value :: "int list \<Rightarrow> int list" where
  "output_value value_list = map output_byte (sectioned_list value_list)"

definition write_multiple_coils :: "int \<Rightarrow> int list \<Rightarrow> error + bytes" where
  "write_multiple_coils starting_address value_list =
     (if \<not> (1 \<le> length value_list \<and> length value_list \<le> 0x07B0)
      then Inl (ValueError ''Invalid quantity of outputs'')
      else
        let out = output_value value_list;
            fmt = replicate (length out) Fmt_B
        in struct_pack ([Fmt_B, Fmt_H, Fmt_H, Fmt_B] @ fmt)
             ([WRITE_MULTIPLE_COILS, starting_address, int (length value_list),
               ((int (length value_list) - 1) div 8) + 1] @ out))"

definition write_multiple_registers :: "int \<Rightarrow> int list \<Rightarrow> bool \<Rightarrow> error + bytes" where
  "write_multiple_registers starting_address register_values signed' =
     (let quantity = int (length register_values) in
      if \<not> (1 \<le> quantity \<and> quantity \<le> 123)
      then Inl (ValueError ''Invalid number of registers'')
      else
        let fmt = replicate (nat quantity) (if signed' then Fmt_h else Fmt_H)
        in struct_pack ([Fmt_B, Fmt_H, Fmt_H, Fmt_B] @ fmt)
             ([WRITE_MULTIPLE_REGISTERS, starting_address, quantity, quantity * 2]
              @ register_values))"

section \<open>Validation of a write acknowledgement\<close>

text \<open>
  \<^verbatim>\<open>value\<close> and \<^verbatim>\<open>quantity\<close> default to \<^verbatim>\<open>None\<close>, which equals no
  integer. \<^verbatim>\<open>resp_addr, resp_value = struct.unpack(fmt, data)\<close> takes the two
  values of the two-code format apart; the last case of the inner \<open>case\<close> stands for
  the \<^verbatim>\<open>ValueError\<close> Python raises when the tuple has another length, which
  \<open>struct_unpack\<close> never returns for a format of two codes.
\<close>

definition validate_resp_data ::
  "bytes \<Rightarrow> int \<Rightarrow> int \<Rightarrow> int option \<Rightarrow> int option \<Rightarrow> bool \<Rightarrow> error + bool" where
  "validate_resp_data data function_code address val quantity signed' =
     (let fmt = [Fmt_H] @ [if signed' then Fmt_h else Fmt_H] in
      if function_code \<in> set [WRITE_SINGLE_COIL, WRITE_SINGLE_REGISTER] then
        (case struct_unpack fmt data of
           Inl e \<Rightarrow> Inl e
         | Inr [resp_addr, resp_value] \<Rightarrow>
             if address = resp_addr \<and> val = Some resp_value then Inr True else Inr False
         | Inr _ \<Rightarrow> Inl (ValueError ''unpack''))
      else if function_code \<in> set [WRITE_MULTIPLE_COILS, WRITE_MULTIPLE_REGISTERS] then
        (case struct_unpack fmt data of
           Inl e \<Rightarrow> Inl e
         | Inr [resp_addr, resp_qty] \<Rightarrow>
             if address = resp_addr \<and> quantity = Some resp_qty then Inr True else Inr False
         | Inr _ \<Rightarrow> Inl (ValueError ''unpack''))
      else Inr False)"

section \<open>Response PDUs\<close>

text \<open>
  \<^verbatim>\<open>signed\<close> is one flag (\<^verbatim>\<open>signed is True or signed is False\<close>) or a
  sequence of flags that the code iterates. \<^verbatim>\<open>value_list\<close> defaults to
  \<^verbatim>\<open>None\<close>, whose \<^verbatim>\<open>len\<close> raises \<^verbatim>\<open>TypeError\<close>. A call that runs
  past the last \<^verbatim>\<open>elif\<close> returns \<^verbatim>\<open>None\<close>: the result is a
  \<open>bytes option\<close>.
\<close>

datatype signed_arg = Signed bool | SignedSeq "bool list"

definition response ::
  "int \<Rightarrow> int \<Rightarrow> int \<Rightarrow> int list \<Rightarrow> int list option \<Rightarrow> signed_arg
     \<Rightarrow> error + bytes option" where
  "response function_code request_register_addr request_register_qty request_data
     value_list signed' =
     (if function_code \<in> set [READ_COILS, READ_DISCRETE_INPUTS] then
        (case value_list of
           None \<Rightarrow> Inl TypeError
         | Some values \<Rightarrow>
             let out = output_value values;
                 fmt = replicate (length out) Fmt_B
             in map_sum id Some
                  (struct_pack ([Fmt_B, Fmt_B] @ fmt)
                     ([function_code, ((int (length values) - 1) div 8) + 1] @ out)))
      else if function_code \<in> set [READ_HOLDING_REGISTERS, READ_INPUT_REGISTER] then
        (case value_list of
           None \<Rightarrow> Inl TypeError
         | Some values \<Rightarrow>
             let quantity = int (length values) in
             if \<not> (0x0001 \<le> quantity \<and> quantity \<le> 0x007D)
             then Inl (ValueError ''invalid number of registers'')
             else
               let fmt = (case signed' of
                            Signed s \<Rightarrow> replicate (nat quantity) (if s then Fmt_h else Fmt_H)
                          | SignedSeq ss \<Rightarrow> map (\<lambda>s. if s then Fmt_h else Fmt_H) ss)
               in map_sum id Some
                    (struct_pack ([Fmt_B, Fmt_B] @ fmt)
                       ([function_code, quantity * 2] @ values)))
      else if function_code \<in> set [WRITE_SINGLE_COIL, WRITE_SINGLE_REGISTER] then
        map_sum id Some
          (struct_pack [Fmt_B, Fmt_H, Fmt_B, Fmt_B]
             ([function_code, request_register_addr] @ request_data))
      else if function_code \<in> set [WRITE_MULTIPLE_COILS, WRITE_MULTIPLE_REGISTERS] then
        map_sum id Some
          (struct_pack [Fmt_B, Fmt_H, Fmt_H]
             [function_code, request_register_addr, request_register_qty])
      else Inr None)"

section \<open>Exception PDUs\<close>

definition exception_response :: "int \<Rightarrow> int \<Rightarrow> error + bytes" where
  "exception_response function_code exception_code =
     struct_pack [Fmt_B, Fmt_B] [ERROR_BIAS + function_code, exception_code]"

section \<open>Numeric conversions\<close>

subsection \<open>Python floats and the binary32 format\<close>

text \<open>
  A Python \<^verbatim>\<open>float\<close> is an IEEE-754 double: a NaN, an infinity with its sign, or a
  finite number \<open>(-1)\<^sup>s \<sqdot> m \<sqdot> 2\<^sup>e\<close> with a sign, a natural mantissa and an integer
  exponent (the zeros are the numbers with mantissa 0, and keep their sign).
  \<open>Finite s m e\<close> is that number; every finite double, and every finite number of the
  32-bit format, has this form. The payload of a NaN is not modelled.
  \<^verbatim>\<open>==\<close> compares values: a NaN equals nothing, the two zeros are equal.
\<close>

datatype py_float = Finite bool nat int | Infinity bool | NaN

fun float_eq :: "py_float \<Rightarrow> py_float \<Rightarrow> bool" where
  "float_eq (Finite s1 m1 e1) (Finite s2 m2 e2) =
     (if m1 = 0 \<or> m2 = 0 then m1 = 0 \<and> m2 = 0
      else s1 = s2 \<and> m1 * 2 ^ nat (e1 - min e1 e2) = m2 * 2 ^ nat (e2 - min e1 e2))"
| "float_eq (Infinity s1) (Infinity s2) = (s1 = s2)"
| "float_eq _ _ = False"

text \<open>
  \<^verbatim>\<open>struct.pack('!f', x)\<close> converts the double to the 32-bit format (binary32: one
  sign bit, 8 exponent bits with bias 127, 23 fraction bits), rounding to the nearest
  number of that format, ties to the even fraction, and writes the four bytes of the bit
  pattern, most significant first. It raises \<^verbatim>\<open>OverflowError\<close> when a finite double
  rounds to an infinity. \<open>binary32_of\<close> is the bit pattern as an integer. For a finite
  number other than zero, \<open>E\<close> is the exponent of its leading bit, \<open>q\<close> the exponent of
  the last fraction bit of the format at this magnitude (no smaller than \<open>-149\<close>, where
  the subnormal numbers are), and \<open>n\<close> the number in units of \<open>2\<^sup>q\<close>, rounded. The
  exponent field and the fraction are the sum \<open>(q + 149) \<sqdot> 2\<^sup>2\<^sup>3 + n\<close>: a subnormal has
  \<open>q = -149\<close> and \<open>n < 2\<^sup>2\<^sup>3\<close>, a normal number has the leading bit of \<open>n\<close> at \<open>2\<^sup>2\<^sup>3\<close>,
  which adds one to the exponent field, and so does a rounding that carries to \<open>2\<^sup>2\<^sup>4\<close>.
\<close>

fun bit_length :: "nat \<Rightarrow> nat" where
  "bit_length n = (if n = 0 then 0 else Suc (bit_length (n div 2)))"

declare bit_length.simps [simp del]

definition round_half_even :: "nat \<Rightarrow> nat \<Rightarrow> nat" where
  "round_half_even m d =
     (let q = m div 2 ^ d; r = m mod 2 ^ d
      in if 2 ^ d < 2 * r \<or> (2 * r = 2 ^ d \<and> odd q) then q + 1 else q)"

definition sign_bit :: "bool \<Rightarrow> int" where
  "sign_bit s = (if s then 0x80000000 else 0)"

fun binary32_of :: "py_float \<Rightarrow> error + int" where
  "binary32_of NaN = Inr 0x7FC00000"
| "binary32_of (Infinity s) = Inr (sign_bit s + 0x7F800000)"
| "binary32_of (Finite s m e) =
     (if m = 0 then Inr (sign_bit s)
      else
        let E = int (bit_length m) - 1 + e;
            q = max (E - 23) (- 149);
            n = (if q \<le> e then m * 2 ^ nat (e - q) else round_half_even m (nat (q - e)));
            magnitude = (q + 149) * 2 ^ 23 + int n
        in if 0x7F800000 \<le> magnitude then Inl OverflowError
           else Inr (sign_bit s + magnitude))"

text \<open>
  \<^verbatim>\<open>struct.unpack('!f', ...)\<close> reads a bit pattern of the 32-bit format as the double
  of the same value: exponent field 255 is an infinity (fraction 0) or a NaN, exponent
  field 0 a zero or a subnormal number \<open>f \<sqdot> 2\<^sup>-\<^sup>1\<^sup>4\<^sup>9\<close>, any other exponent field \<open>ex\<close>
  the number \<open>(2\<^sup>2\<^sup>3 + f) \<sqdot> 2\<^sup>e\<^sup>x\<^sup>-\<^sup>1\<^sup>5\<^sup>0\<close>.
\<close>

definition binary32_value :: "int \<Rightarrow> py_float" where
  "binary32_value w =
     (let s = (w div 2 ^ 31 mod 2 = 1);
          ex = w div 2 ^ 23 mod 256;
          f = w mod 2 ^ 23
      in if ex = 255 then (if f = 0 then Infinity s else NaN)
         else if ex = 0 then Finite s (nat f) (- 149)
         else Finite s (nat (2 ^ 23 + f)) (ex - 150))"

text \<open>
  The formats \<^verbatim>\<open>!f\<close> and \<^verbatim>\<open>!I\<close> are four bytes in network (big-endian) order.
  \<^verbatim>\<open>struct.pack('!I', v)\<close> raises \<^verbatim>\<open>struct.error\<close> unless \<open>0 \<le> v < 2\<^sup>3\<^sup>2\<close>;
  unpacking raises it unless the buffer is four bytes.
\<close>

definition big_endian32 :: "int \<Rightarrow> bytes" where
  "big_endian32 v =
     [word_of_int (v div 16777216), word_of_int (v div 65536), word_of_int (v div 256),
      word_of_int v]"

definition unsigned32 :: "byte \<Rightarrow> byte \<Rightarrow> byte \<Rightarrow> byte \<Rightarrow> int" where
  "unsigned32 b3 b2 b1 b0 = ((uint b3 * 256 + uint b2) * 256 + uint b1) * 256 + uint b0"

definition pack_f :: "py_float \<Rightarrow> error + bytes" where
  "pack_f x = (case binary32_of x of Inl e \<Rightarrow> Inl e | Inr w \<Rightarrow> Inr (big_endian32 w))"

definition pack_I :: "int \<Rightarrow> error + bytes" where
  "pack_I v = (if \<not> (0 \<le> v \<and> v \<le> 4294967295) then Inl StructError
               else Inr (big_endian32 v))"

fun unpack_I :: "bytes \<Rightarrow> error + int" where
  "unpack_I [b3, b2, b1, b0] = Inr (unsigned32 b3 b2 b1 b0)"
| "unpack_I _ = Inl StructError"

fun unpack_f :: "bytes \<Rightarrow> error + py_float" where
  "unpack_f [b3, b2, b1, b0] = Inr (binary32_value (unsigned32 b3 b2 b1 b0))"
| "unpack_f _ = Inl StructError"

subsection \<open>Binary digit strings\<close>

text \<open>
  \<^verbatim>\<open>bin(v)\<close> is \<^verbatim>\<open>0b\<close> and the binary digits of \<open>v\<close> without leading zeros, after
  a minus sign for a negative \<open>v\<close>. \<^verbatim>\<open>s.zfill(width)\<close> fills with zeros on the left,
  after a leading sign if there is one.
\<close>

fun bin_digits :: "nat \<Rightarrow> string" where
  "bin_digits n =
     (if n < 2 then [if n = 0 then CHR ''0'' else CHR ''1'']
      else bin_digits (n div 2) @ [if n mod 2 = 0 then CHR ''0'' else CHR ''1''])"

declare bin_digits.simps [simp del]

definition bin :: "int \<Rightarrow> string" where
  "bin v = (if v < 0 then ''-0b'' @ bin_digits (nat (- v)) else ''0b'' @ bin_digits (nat v))"

definition zfill :: "nat \<Rightarrow> string \<Rightarrow> string" where
  "zfill width s =
     (case s of
        [] \<Rightarrow> replicate width CHR ''0''
      | c # r \<Rightarrow>
          if c = CHR ''+'' \<or> c = CHR ''-''
          then c # replicate (width - length s) CHR ''0'' @ r
          else replicate (width - length s) CHR ''0'' @ s)"

text \<open>
  \<^verbatim>\<open>int(s, 2)\<close> on a string of ASCII characters, as CPython reads it: whitespace
  around the number, an optional sign, an optional prefix \<^verbatim>\<open>0b\<close> or \<^verbatim>\<open>0B\<close>, then
  binary digits with single underscores between them (one underscore may follow the
  prefix); anything else is a \<^verbatim>\<open>ValueError\<close>.
\<close>

definition is_space :: "char \<Rightarrow> bool" where
  "is_space c = (c \<in> set [CHR '' '', CHR 0x09, CHR 0x0A, CHR 0x0B, CHR 0x0C, CHR 0x0D])"

definition is_digit_or_underscore :: "char \<Rightarrow> bool" where
  "is_digit_or_underscore c = (c \<in> set [CHR ''0'', CHR ''1'', CHR ''_''])"

fun underscores_ok :: "string \<Rightarrow> bool" where
  "underscores_ok [] = True"
| "underscores_ok [c] = (c \<noteq> CHR ''_'')"
| "underscores_ok (c # d # r) =
     (\<not> (c = CHR ''_'' \<and> d = CHR ''_'') \<and> underscores_ok (d # r))"

fun digits_value :: "int \<Rightarrow> string \<Rightarrow> int" where
  "digits_value acc [] = acc"
| "digits_value acc (c # r) =
     (if c = CHR ''_'' then digits_value acc r
      else digits_value (2 * acc + (if c = CHR ''1'' then 1 else 0)) r)"

definition int_base2 :: "string \<Rightarrow> error + int" where
  "int_base2 s =
     (let s1 = dropWhile is_space s;
          negative = (case s1 of c # r \<Rightarrow> c = CHR ''-'' | [] \<Rightarrow> False);
          s2 = (case s1 of
                  c # r \<Rightarrow> if c = CHR ''+'' \<or> c = CHR ''-'' then r else s1
                | [] \<Rightarrow> s1);
          s3 = (case s2 of
                  c # b # r \<Rightarrow>
                    if c = CHR ''0'' \<and> (b = CHR ''b'' \<or> b = CHR ''B'')
                    then (case r of u # r' \<Rightarrow> if u = CHR ''_'' then r' else r | [] \<Rightarrow> r)
                    else s2
                | _ \<Rightarrow> s2);
          body = takeWhile is_digit_or_underscore s3;
          rest = dropWhile is_digit_or_underscore s3
      in if body = [] \<or> hd body = CHR ''_'' \<or> \<not> underscores_ok body
              \<or> dropWhile is_space rest \<noteq> []
         then Inl (ValueError ''invalid literal for int() with base 2'')
         else Inr ((if negative then - 1 else 1) * digits_value 0 body))"

subsection \<open>The conversions\<close>

text \<open>
  \<^verbatim>\<open>bin(struct.unpack('!I', struct.pack('!f', num))[0])[2:].zfill(32)\<close> and
  \<^verbatim>\<open>struct.unpack('!f', struct.pack('!I', int(binary, 2)))[0]\<close>; the slice
  \<^verbatim>\<open>[2:]\<close> drops the first two characters.
\<close>

definition float_to_bin :: "py_float \<Rightarrow> error + string" where
  "float_to_bin num =
     (case pack_f num of
        Inl e \<Rightarrow> Inl e
      | Inr packed \<Rightarrow>
          (case unpack_I packed of
             Inl e \<Rightarrow> Inl e
           | Inr v \<Rightarrow> Inr (zfill 32 (drop 2 (bin v)))))"

definition bin_to_float :: "string \<Rightarrow> error + py_float" where
  "bin_to_float binary =
     (case int_base2 binary of
        Inl e \<Rightarrow> Inl e
      | Inr v \<Rightarrow>
          (case pack_I v of
             Inl e \<Rightarrow> Inl e
           | Inr packed \<Rightarrow> unpack_f packed))"

section \<open>The names of the specification\<close>

text \<open>
  The specification calls the failures of the encoders \<open>InvalidQuantity\<close> and
  \<open>IllegalValue\<close>. In the code both are a \<^verbatim>\<open>ValueError\<close>, told apart by
  the message: the quantity checks raise the first six messages below (the last of them
  in \<^verbatim>\<open>response\<close>), the coil value check raises \<^verbatim>\<open>Illegal coil value\<close>.
\<close>

definition is_InvalidQuantity :: "error \<Rightarrow> bool" where
  "is_InvalidQuantity e =
     (e \<in> set [ValueError ''Invalid number of coils'',
                ValueError ''Invalid number of discrete inputs'',
                ValueError ''Invalid number of holding registers'',
                ValueError ''Invalid number of input registers'',
                ValueError ''Invalid quantity of outputs'',
                ValueError ''Invalid number of registers'',
                ValueError ''invalid number of registers''])"

definition is_IllegalValue :: "error \<Rightarrow> bool" where
  "is_IllegalValue e = (e = ValueError ''Illegal coil value'')"

text \<open>
  What the specification promises of every operation of the request encoder: a PDU, or
  one of these two failures.
\<close>

definition pdu_or_declared_error :: "error + bytes \<Rightarrow> bool" where
  "pdu_or_declared_error r =
     (case r of Inr pdu \<Rightarrow> True | Inl e \<Rightarrow> is_InvalidQuantity e \<or> is_IllegalValue e)"

text \<open>
  The bit packer as the specification words it: consecutive groups of at most 8, the
  last group padded with zeros on the right to 8 bits, each group folded with
  \<open>byte = (byte << 1) | bit\<close>, so that the first bit of every group is the most
  significant bit of its byte.
\<close>

definition BitPacker_right_padded :: "int list \<Rightarrow> int list" where
  "BitPacker_right_padded bits =
     map (\<lambda>group. output_byte (group @ replicate (8 - length group) 0))
       (sectioned_list bits)"

section \<open>Facts about the struct model\<close>

lemmas Const_defs =
  READ_COILS_def READ_DISCRETE_INPUTS_def READ_HOLDING_REGISTERS_def
  READ_INPUT_REGISTER_def WRITE_SINGLE_COIL_def WRITE_SINGLE_REGISTER_def
  WRITE_MULTIPLE_COILS_def WRITE_MULTIPLE_REGISTERS_def ERROR_BIAS_def

lemma uint_byte: "0 \<le> v \<Longrightarrow> v \<le> 255 \<Longrightarrow> uint (word_of_int v :: byte) = v"
  by (simp add: uint_word_of_int)

lemma unsigned16_big_endian:
  assumes "0 \<le> v" "v \<le> 65535"
  shows "unsigned16 (word_of_int (v div 256)) (word_of_int (v mod 256)) = v"
proof -
  have "0 \<le> v div 256" "v div 256 \<le> 255" using assms by auto
  then have hi: "uint (word_of_int (v div 256) :: byte) = v div 256"
    by (rule uint_byte)
  have lo: "uint (word_of_int (v mod 256) :: byte) = v mod 256"
    by (rule uint_byte) auto
  show ?thesis by (simp add: unsigned16_def hi lo)
qed

lemma mod_65536_signed:
  fixes v :: int
  assumes "- 32768 \<le> v" "v \<le> 32767"
  shows "v mod 65536 = (if 0 \<le> v then v else v + 65536)"
proof (cases "0 \<le> v")
  case True
  with assms show ?thesis by simp
next
  case False
  have a: "(v + 65536) mod 65536 = v + 65536"
    by (rule mod_pos_pos_trivial) (use assms False in auto)
  have b: "(v + 65536) mod 65536 = v mod 65536"
    by simp
  have "v mod 65536 = v + 65536"
    using b [symmetric] a by (rule trans)
  with False show ?thesis by (simp only: if_False)
qed

lemma signed16_big_endian:
  assumes "- 32768 \<le> v" "v \<le> 32767"
  shows "signed16 (word_of_int ((v mod 65536) div 256))
           (word_of_int ((v mod 65536) mod 256)) = v"
proof -
  define m where "m = v mod 65536"
  have m: "m = (if 0 \<le> v then v else v + 65536)"
    unfolding m_def by (rule mod_65536_signed [OF assms])
  have "0 \<le> m" "m \<le> 65535" using assms by (auto simp: m)
  then have u: "unsigned16 (word_of_int (m div 256)) (word_of_int (m mod 256)) = m"
    by (rule unsigned16_big_endian)
  have "signed16 (word_of_int (m div 256)) (word_of_int (m mod 256)) = v"
    unfolding signed16_def u Let_def using assms by (auto simp: m)
  then show ?thesis by (simp only: m_def)
qed

lemma or_bias:
  fixes fc :: int
  assumes "0 \<le> fc" "fc < 128"
  shows "fc OR 128 = 128 + fc"
proof -
  have "\<not> bit fc 7" using assms by (simp add: bit_iff_odd)
  then have "fc AND 2 ^ 7 = 0"
    using and_exp_eq_0_iff_not_bit [of fc 7] by blast
  then have "fc + 2 ^ 7 = fc OR 2 ^ 7" by (rule disjunctive_add_eq_or)
  then show ?thesis by simp
qed

lemma pack_field_ok: "fmt_range c v \<Longrightarrow> pack_field c v = Inr (field_bytes c v)"
  by (simp add: pack_field_def)

lemma pack_field_error: "\<not> fmt_range c v \<Longrightarrow> pack_field c v = Inl StructError"
  by (simp add: pack_field_def)

lemma struct_pack_error: "struct_pack cs vs = Inl e \<Longrightarrow> e = StructError"
  by (induction cs vs arbitrary: e rule: struct_pack.induct)
     (auto simp: pack_field_def split: if_splits sum.splits)

lemma struct_pack_ok:
  "list_all2 fmt_range cs vs \<Longrightarrow>
     struct_pack cs vs = Inr (concat (map2 field_bytes cs vs))"
  by (induction cs vs rule: list_all2_induct) (simp_all add: pack_field_ok)

lemma struct_pack_Inr_iff:
  "(\<exists>bs. struct_pack cs vs = Inr bs) = list_all2 fmt_range cs vs"
proof
  assume "\<exists>bs. struct_pack cs vs = Inr bs"
  then show "list_all2 fmt_range cs vs"
    by (induction cs vs rule: struct_pack.induct)
       (auto simp: pack_field_def split: if_splits sum.splits)
next
  assume "list_all2 fmt_range cs vs"
  then show "\<exists>bs. struct_pack cs vs = Inr bs"
    by (simp add: struct_pack_ok)
qed

lemma struct_pack_total:
  "struct_pack cs vs =
     (if list_all2 fmt_range cs vs then Inr (concat (map2 field_bytes cs vs))
      else Inl StructError)"
proof (cases "list_all2 fmt_range cs vs")
  case True
  then show ?thesis by (simp add: struct_pack_ok)
next
  case False
  then have "\<not> (\<exists>bs. struct_pack cs vs = Inr bs)"
    by (simp add: struct_pack_Inr_iff)
  then obtain e where "struct_pack cs vs = Inl e"
    by (cases "struct_pack cs vs") auto
  with struct_pack_error [of cs vs e] False show ?thesis by simp
qed

lemma struct_unpack_error: "struct_unpack cs data = Inl e \<Longrightarrow> e = StructError"
  by (induction cs data arbitrary: e rule: struct_unpack.induct)
     (auto split: sum.splits)

lemma struct_unpack_Inr_length:
  "struct_unpack cs data = Inr vs \<Longrightarrow> length data = calcsize cs \<and> length vs = length cs"
  by (induction cs data arbitrary: vs rule: struct_unpack.induct)
     (auto split: sum.splits)

lemma length_four: "length xs = 4 \<Longrightarrow> \<exists>a b c d. xs = [a, b, c, d]"
  by (cases xs; simp; cases "tl xs"; simp; cases "tl (tl xs)"; simp;
      cases "tl (tl (tl xs))"; simp) 

section \<open>Facts about the bit packing loop\<close>

lemma output_byte_Nil: "output_byte [] = 0"
  by (simp add: output_byte_def)

lemma output_byte_snoc:
  "output_byte (g @ [b]) = push_bit 1 (output_byte g) OR b"
  by (simp add: output_byte_def)

lemma output_byte_snoc_bit:
  assumes "b \<in> {0, 1}"
  shows "output_byte (g @ [b]) = 2 * output_byte g + b"
  using assms by (auto simp: output_byte_snoc or_one_eq)

lemma output_byte_bounds:
  "set g \<subseteq> {0, 1} \<Longrightarrow> 0 \<le> output_byte g \<and> output_byte g < 2 ^ length g"
proof (induction g rule: rev_induct)
  case Nil
  show ?case by (simp add: output_byte_Nil)
next
  case (snoc b g)
  then have b: "b \<in> {0, 1}" and g: "set g \<subseteq> {0, 1}" by auto
  from snoc.IH [OF g] b show ?case
    by (auto simp: output_byte_snoc_bit [OF b])
qed

lemma output_byte_bit:
  "set g \<subseteq> {0, 1} \<Longrightarrow>
     bit (output_byte g) i = (i < length g \<and> g ! (length g - 1 - i) = 1)"
proof (induction g arbitrary: i rule: rev_induct)
  case Nil
  show ?case by (simp add: output_byte_Nil)
next
  case (snoc b g)
  then have b: "b \<in> {0, 1}" and g: "set g \<subseteq> {0, 1}" by auto
  show ?case
  proof (cases i)
    case 0
    with b show ?thesis
      by (auto simp: output_byte_snoc_bit [OF b] bit_0)
  next
    case (Suc k)
    have "bit (output_byte (g @ [b])) (Suc k) = bit (output_byte g) k"
      using b by (auto simp: output_byte_snoc_bit [OF b] bit_Suc)
    also have "\<dots> = (k < length g \<and> g ! (length g - 1 - k) = 1)"
      by (rule snoc.IH [OF g])
    also have "\<dots> = (Suc k < length (g @ [b])
                        \<and> (g @ [b]) ! (length (g @ [b]) - 1 - Suc k) = 1)"
      by (auto simp: nth_append)
    finally show ?thesis using Suc by simp
  qed
qed

lemma length_sectioned_list:
  "length (sectioned_list xs) = (length xs + 7) div 8"
  by (simp add: sectioned_list_def)

lemma nth_sectioned_list:
  "j < (length xs + 7) div 8 \<Longrightarrow> sectioned_list xs ! j = take 8 (drop (8 * j) xs)"
  by (simp add: sectioned_list_def)

lemma concat_sections:
  "concat (map (\<lambda>k. take 8 (drop (8 * k) xs)) [0 ..< m]) = take (8 * m) xs"
proof (induction m)
  case 0
  show ?case by simp
next
  case (Suc m)
  have "take (8 * Suc m) xs = take (8 * m + 8) xs"
    by (simp add: add.commute)
  also have "\<dots> = take (8 * m) xs @ take 8 (drop (8 * m) xs)"
    by (rule take_add)
  finally show ?case using Suc by simp
qed

lemma concat_sectioned_list: "concat (sectioned_list xs) = xs"
  by (simp add: sectioned_list_def concat_sections)

lemma length_section:
  assumes "j < (length xs + 7) div 8"
  shows "length (sectioned_list xs ! j) = min 8 (length xs - 8 * j)"
    and "1 \<le> length (sectioned_list xs ! j)"
    and "Suc j < (length xs + 7) div 8 \<Longrightarrow> length (sectioned_list xs ! j) = 8"
  using assms by (auto simp: nth_sectioned_list)

lemma byte_count:
  "nat ((int n - 1) div 8 + 1) = (n + 7) div 8"
proof -
  have "(int n - 1) div 8 + 1 = (int n + 7) div 8" by simp
  also have "\<dots> = int ((n + 7) div 8)" by (simp add: zdiv_int)
  finally show ?thesis by simp
qed

lemma set_section:
  assumes "j < (length xs + 7) div 8"
  shows "set (sectioned_list xs ! j) \<subseteq> set xs"
  using assms
  by (auto simp: nth_sectioned_list dest: in_set_takeD in_set_dropD)

section \<open>The claims\<close>

subsection \<open>C1: the bit packer\<close>

text \<open>
  C1, as the specification states it: the packer is \<open>BitPacker_right_padded\<close>, where a
  final group shorter than 8 is padded with zeros on the right and the first bit of every
  group is the most significant bit of its byte. The code differs on a short final group:
  packing the single bit 1 gives the byte 1, not 128, and bit 7 of that byte is clear.
\<close>

theorem bit_packer_counterexample:
  "output_value [1] = [1] \<and> BitPacker_right_padded [1] = [128]
     \<and> \<not> bit (output_value [1] ! 0) 7"
  by code_simp

text \<open>
  C1, amended: for every sequence of bit values the packing partitions the sequence into
  the consecutive groups \<open>take 8 (drop (8 * j) bits)\<close>, each of 1 to 8 bits and every
  group but the last of exactly 8; the byte of a group is the fold
  \<open>byte = (byte << 1) | bit\<close> over it; bit \<open>i\<close> of that byte is set exactly when
  \<open>i\<close> is below the group's length \<open>k\<close> and the group's bit \<open>k - 1 - i\<close> is 1. So
  the first bit of a full group is the most significant bit of its byte, while a final
  group of \<open>k < 8\<close> bits is right-aligned: its first bit is bit \<open>k - 1\<close> and the upper
  \<open>8 - k\<close> bits of the byte are zero. The number of bytes is \<open>((n - 1) div 8) + 1\<close>
  for \<open>n\<close> input bits, with the floor division of Python.
\<close>

theorem bit_packer:
  assumes "set bits \<subseteq> {0, 1}"
  shows "length (output_value bits) = nat ((int (length bits) - 1) div 8 + 1)
    \<and> concat (sectioned_list bits) = bits
    \<and> (\<forall>j < length (output_value bits).
          sectioned_list bits ! j = take 8 (drop (8 * j) bits)
        \<and> 1 \<le> length (sectioned_list bits ! j)
        \<and> length (sectioned_list bits ! j) \<le> 8
        \<and> (Suc j < length (output_value bits) \<longrightarrow> length (sectioned_list bits ! j) = 8)
        \<and> output_value bits ! j
            = fold (\<lambda>bit output. push_bit 1 output OR bit) (sectioned_list bits ! j) 0
        \<and> 0 \<le> output_value bits ! j
        \<and> output_value bits ! j < 2 ^ length (sectioned_list bits ! j)
        \<and> (\<forall>i. bit (output_value bits ! j) i
               = (i < length (sectioned_list bits ! j)
                  \<and> sectioned_list bits ! j
                      ! (length (sectioned_list bits ! j) - 1 - i) = 1)))"
proof (intro conjI allI impI)
  show "length (output_value bits) = nat ((int (length bits) - 1) div 8 + 1)"
    by (simp add: output_value_def length_sectioned_list byte_count)
  show "concat (sectioned_list bits) = bits"
    by (rule concat_sectioned_list)
next
  fix j
  assume "j < length (output_value bits)"
  then have j: "j < (length bits + 7) div 8"
    by (simp add: output_value_def length_sectioned_list)
  let ?g = "sectioned_list bits ! j"
  have g: "set ?g \<subseteq> {0, 1}"
    using set_section [OF j] assms by blast
  have out: "output_value bits ! j = output_byte ?g"
    using j by (simp add: output_value_def length_sectioned_list)
  show "?g = take 8 (drop (8 * j) bits)"
    by (rule nth_sectioned_list [OF j])
  show "1 \<le> length ?g"
    by (rule length_section(2) [OF j])
  show "length ?g \<le> 8"
    by (simp add: length_section(1) [OF j])
  show "output_value bits ! j = fold (\<lambda>bit output. push_bit 1 output OR bit) ?g 0"
    by (simp add: out output_byte_def)
  show "0 \<le> output_value bits ! j"
    using output_byte_bounds [OF g] by (simp add: out)
  show "output_value bits ! j < 2 ^ length ?g"
    using output_byte_bounds [OF g] by (simp add: out)
  show "bit (output_value bits ! j) i
          = (i < length ?g \<and> ?g ! (length ?g - 1 - i) = 1)" for i
    by (simp add: out output_byte_bit [OF g])
  show "length ?g = 8" if "Suc j < length (output_value bits)"
  proof -
    from that have "Suc j < (length bits + 7) div 8"
      by (simp add: output_value_def length_sectioned_list)
    then show ?thesis by (rule length_section(3) [OF j])
  qed
qed

theorem bit_packer_witness:
  "set [1, 0, 1, 1, 0, 0, 0, 1, 1 :: int] \<subseteq> {0, 1}
     \<and> output_value [1, 0, 1, 1, 0, 0, 0, 1, 1] = [177, 1]
     \<and> length (output_value [1, 0, 1, 1, 0, 0, 0, 1, 1])
         = nat ((int (length [1, 0, 1, 1, 0, 0, 0, 1, 1 :: int]) - 1) div 8 + 1)
     \<and> concat (sectioned_list [1, 0, 1, 1, 0, 0, 0, 1, 1 :: int])
         = [1, 0, 1, 1, 0, 0, 0, 1, 1]"
proof -
  have h: "set [1, 0, 1, 1, 0, 0, 0, 1, 1 :: int] \<subseteq> {0, 1}" by simp
  have v: "output_value [1, 0, 1, 1, 0, 0, 0, 1, 1] = [177, 1]"
    by code_simp
  from bit_packer [OF h] h v show ?thesis by blast
qed

lemma pack_BHH:
  assumes "fmt_range Fmt_B c" "fmt_range Fmt_H a" "fmt_range Fmt_H q"
  shows "struct_pack [Fmt_B, Fmt_H, Fmt_H] [c, a, q]
           = Inr (word_of_int c # big_endian16 a @ big_endian16 q)"
  using assms by (simp add: pack_field_def)

lemma unpack_BHH:
  assumes "fmt_range Fmt_B c" "fmt_range Fmt_H a" "fmt_range Fmt_H q"
  shows "struct_unpack [Fmt_B, Fmt_H, Fmt_H]
           (word_of_int c # big_endian16 a @ big_endian16 q) = Inr [c, a, q]"
  using assms by (simp add: big_endian16_def uint_byte unsigned16_big_endian)

lemma read_request:
  assumes "fmt_range Fmt_B c" "fmt_range Fmt_H a" "lo \<le> q" "q \<le> hi" "0 \<le> lo" "hi \<le> 65535"
  shows "struct_pack [Fmt_B, Fmt_H, Fmt_H] [c, a, q]
           = Inr (word_of_int c # big_endian16 a @ big_endian16 q)
       \<and> length (word_of_int c # big_endian16 a @ big_endian16 q) = 5
       \<and> struct_unpack [Fmt_B, Fmt_H, Fmt_H]
           (word_of_int c # big_endian16 a @ big_endian16 q) = Inr [c, a, q]"
proof -
  have q: "fmt_range Fmt_H q" using assms by simp
  show ?thesis
    using pack_BHH [OF assms(1,2) q] unpack_BHH [OF assms(1,2) q]
    by (simp add: big_endian16_def)
qed

subsection \<open>C4: the read requests\<close>

text \<open>
  C4: for each of the four read requests, a quantity inside the range of the operation
  (1 to 2000 for coils and discrete inputs, 1 to 125 for holding and input registers)
  and an address that is an unsigned 16-bit value (the Address of the data model) give
  the 5 bytes code, address (2, big-endian), quantity (2, big-endian), and unpacking the
  PDU gives the function code, the address and the quantity back; a quantity outside the
  range raises the \<^verbatim>\<open>ValueError\<close> of the quantity check, whatever the address.
\<close>

theorem read_requests:
  "(1 \<le> quantity \<and> quantity \<le> 2000 \<and> fmt_range Fmt_H address \<longrightarrow>
      read_coils address quantity
        = Inr (word_of_int READ_COILS # big_endian16 address @ big_endian16 quantity)
    \<and> read_discrete_inputs address quantity
        = Inr (word_of_int READ_DISCRETE_INPUTS # big_endian16 address
               @ big_endian16 quantity)
    \<and> length (word_of_int READ_COILS # big_endian16 address @ big_endian16 quantity) = 5
    \<and> struct_unpack [Fmt_B, Fmt_H, Fmt_H]
         (word_of_int READ_COILS # big_endian16 address @ big_endian16 quantity)
        = Inr [READ_COILS, address, quantity]
    \<and> struct_unpack [Fmt_B, Fmt_H, Fmt_H]
         (word_of_int READ_DISCRETE_INPUTS # big_endian16 address @ big_endian16 quantity)
        = Inr [READ_DISCRETE_INPUTS, address, quantity])
 \<and> (1 \<le> quantity \<and> quantity \<le> 125 \<and> fmt_range Fmt_H address \<longrightarrow>
      read_holding_registers address quantity
        = Inr (word_of_int READ_HOLDING_REGISTERS # big_endian16 address
               @ big_endian16 quantity)
    \<and> read_input_registers address quantity
        = Inr (word_of_int READ_INPUT_REGISTER # big_endian16 address
               @ big_endian16 quantity)
    \<and> struct_unpack [Fmt_B, Fmt_H, Fmt_H]
         (word_of_int READ_HOLDING_REGISTERS # big_endian16 address
          @ big_endian16 quantity)
        = Inr [READ_HOLDING_REGISTERS, address, quantity]
    \<and> struct_unpack [Fmt_B, Fmt_H, Fmt_H]
         (word_of_int READ_INPUT_REGISTER # big_endian16 address @ big_endian16 quantity)
        = Inr [READ_INPUT_REGISTER, address, quantity])
 \<and> (\<not> (1 \<le> quantity \<and> quantity \<le> 2000) \<longrightarrow>
      read_coils address quantity = Inl (ValueError ''Invalid number of coils'')
    \<and> read_discrete_inputs address quantity
        = Inl (ValueError ''Invalid number of discrete inputs'')
    \<and> is_InvalidQuantity (ValueError ''Invalid number of coils'')
    \<and> is_InvalidQuantity (ValueError ''Invalid number of discrete inputs''))
 \<and> (\<not> (1 \<le> quantity \<and> quantity \<le> 125) \<longrightarrow>
      read_holding_registers address quantity
        = Inl (ValueError ''Invalid number of holding registers'')
    \<and> read_input_registers address quantity
        = Inl (ValueError ''Invalid number of input registers'')
    \<and> is_InvalidQuantity (ValueError ''Invalid number of holding registers'')
    \<and> is_InvalidQuantity (ValueError ''Invalid number of input registers''))"
proof (intro conjI impI)
  assume h: "1 \<le> quantity \<and> quantity \<le> 2000 \<and> fmt_range Fmt_H address"
  then have a: "fmt_range Fmt_H address" and lo: "1 \<le> quantity" and hi: "quantity \<le> 2000"
    by simp_all
  have c1: "fmt_range Fmt_B READ_COILS" and c2: "fmt_range Fmt_B READ_DISCRETE_INPUTS"
    by (simp_all add: Const_defs)
  note r1 = read_request [OF c1 a lo hi]
  note r2 = read_request [OF c2 a lo hi]
  show "read_coils address quantity
          = Inr (word_of_int READ_COILS # big_endian16 address @ big_endian16 quantity)"
    using r1 lo hi by (simp add: read_coils_def)
  show "read_discrete_inputs address quantity
          = Inr (word_of_int READ_DISCRETE_INPUTS # big_endian16 address
                 @ big_endian16 quantity)"
    using r2 lo hi by (simp add: read_discrete_inputs_def)
  show "length (word_of_int READ_COILS # big_endian16 address @ big_endian16 quantity) = 5"
    using r1 by simp
  show "struct_unpack [Fmt_B, Fmt_H, Fmt_H]
          (word_of_int READ_COILS # big_endian16 address @ big_endian16 quantity)
         = Inr [READ_COILS, address, quantity]"
    using r1 by simp
  show "struct_unpack [Fmt_B, Fmt_H, Fmt_H]
          (word_of_int READ_DISCRETE_INPUTS # big_endian16 address @ big_endian16 quantity)
         = Inr [READ_DISCRETE_INPUTS, address, quantity]"
    using r2 by simp
next
  assume h: "1 \<le> quantity \<and> quantity \<le> 125 \<and> fmt_range Fmt_H address"
  then have a: "fmt_range Fmt_H address" and lo: "1 \<le> quantity" and hi: "quantity \<le> 125"
    by simp_all
  have c3: "fmt_range Fmt_B READ_HOLDING_REGISTERS"
    and c4: "fmt_range Fmt_B READ_INPUT_REGISTER"
    by (simp_all add: Const_defs)
  note r3 = read_request [OF c3 a lo hi]
  note r4 = read_request [OF c4 a lo hi]
  show "read_holding_registers address quantity
          = Inr (word_of_int READ_HOLDING_REGISTERS # big_endian16 address
                 @ big_endian16 quantity)"
    using r3 lo hi by (simp add: read_holding_registers_def)
  show "read_input_registers address quantity
          = Inr (word_of_int READ_INPUT_REGISTER # big_endian16 address
                 @ big_endian16 quantity)"
    using r4 lo hi by (simp add: read_input_registers_def)
  show "struct_unpack [Fmt_B, Fmt_H, Fmt_H]
          (word_of_int READ_HOLDING_REGISTERS # big_endian16 address
           @ big_endian16 quantity)
         = Inr [READ_HOLDING_REGISTERS, address, quantity]"
    using r3 by simp
  show "struct_unpack [Fmt_B, Fmt_H, Fmt_H]
          (word_of_int READ_INPUT_REGISTER # big_endian16 address @ big_endian16 quantity)
         = Inr [READ_INPUT_REGISTER, address, quantity]"
    using r4 by simp
next
  assume "\<not> (1 \<le> quantity \<and> quantity \<le> 2000)"
  then show "read_coils address quantity = Inl (ValueError ''Invalid number of coils'')"
    and "read_discrete_inputs address quantity
           = Inl (ValueError ''Invalid number of discrete inputs'')"
    by (simp_all add: read_coils_def read_discrete_inputs_def)
next
  assume "\<not> (1 \<le> quantity \<and> quantity \<le> 125)"
  then show "read_holding_registers address quantity
               = Inl (ValueError ''Invalid number of holding registers'')"
    and "read_input_registers address quantity
           = Inl (ValueError ''Invalid number of input registers'')"
    by (simp_all add: read_holding_registers_def read_input_registers_def)
qed (simp_all add: is_InvalidQuantity_def)

theorem read_requests_witness:
  "read_coils 0 2000 = Inr [1, 0, 0, 7, 208]
     \<and> read_coils 0 2001 = Inl (ValueError ''Invalid number of coils'')
     \<and> read_holding_registers 0 125 = Inr [3, 0, 0, 0, 125]
     \<and> read_holding_registers 0 0 = Inl (ValueError ''Invalid number of holding registers'')"
  using read_requests [of 2000 0] read_requests [of 2001 0]
    read_requests [of 125 0] read_requests [of 0 0]
  by (simp add: big_endian16_def Const_defs)

subsection \<open>C8: the exception response\<close>

text \<open>
  C8: for every function code (a Modbus function code is a byte with a clear high bit,
  0 to 127; the eight codes of the data model are among them) and every exception code
  that is a byte, \<^verbatim>\<open>exception_response\<close> returns exactly two bytes: the function
  code with the bit \<open>ERROR_BIAS\<close> set, and the exception code. The code adds
  \<open>ERROR_BIAS\<close>; on these function codes the sum is the bitwise or.
\<close>

theorem exception_response_bytes:
  "0 \<le> function_code \<and> function_code < 128 \<and> 0 \<le> exception_code \<and> exception_code \<le> 255
   \<longrightarrow> exception_response function_code exception_code
         = Inr [word_of_int (function_code OR ERROR_BIAS), word_of_int exception_code]
     \<and> (word_of_int (function_code OR ERROR_BIAS) :: byte)
         = word_of_int function_code OR 0x80
     \<and> uint (word_of_int (function_code OR ERROR_BIAS) :: byte) = function_code + 128
     \<and> uint (word_of_int exception_code :: byte) = exception_code"
proof (intro impI conjI)
  assume h: "0 \<le> function_code \<and> function_code < 128
               \<and> 0 \<le> exception_code \<and> exception_code \<le> 255"
  then have fc: "0 \<le> function_code" "function_code < 128"
    and ec: "0 \<le> exception_code" "exception_code \<le> 255"
    by simp_all
  have or: "function_code OR ERROR_BIAS = ERROR_BIAS + function_code"
    unfolding ERROR_BIAS_def by (rule or_bias [OF fc])
  show "exception_response function_code exception_code
          = Inr [word_of_int (function_code OR ERROR_BIAS), word_of_int exception_code]"
    unfolding or using fc ec
    by (simp add: exception_response_def pack_field_def ERROR_BIAS_def)
  show "(word_of_int (function_code OR ERROR_BIAS) :: byte)
          = word_of_int function_code OR 0x80"
  proof -
    have "(word_of_int function_code OR word_of_int 128 :: byte)
            = word_of_int (function_code OR 128)"
      by (rule word_wi_log_defs(3))
    then show ?thesis by (simp add: ERROR_BIAS_def)
  qed
  show "uint (word_of_int (function_code OR ERROR_BIAS) :: byte) = function_code + 128"
  proof -
    have "0 \<le> 128 + function_code" "128 + function_code \<le> 255"
      using fc by simp_all
    then have "uint (word_of_int (128 + function_code) :: byte) = 128 + function_code"
      by (rule uint_byte)
    moreover have "function_code OR ERROR_BIAS = 128 + function_code"
      using or by (simp only: ERROR_BIAS_def)
    ultimately show ?thesis
      by (simp only: add.commute)
  qed
  show "uint (word_of_int exception_code :: byte) = exception_code"
    using ec by (rule uint_byte)
qed

theorem exception_response_bytes_witness:
  "exception_response 3 2 = Inr [0x83, 0x02]"
  using exception_response_bytes [of 3 2] by (simp add: ERROR_BIAS_def)

subsection \<open>C10: a response for an unknown function code\<close>

text \<open>
  C10: when the function code is none of 1, 2, 3, 4, 5, 6, 15, 16, \<^verbatim>\<open>response\<close>
  enters no branch: it returns \<^verbatim>\<open>None\<close>, neither a PDU nor an error, whatever the
  other arguments are.
\<close>

theorem response_unknown_function_code:
  "function_code \<notin> {1, 2, 3, 4, 5, 6, 15, 16} \<longrightarrow>
     response function_code request_register_addr request_register_qty request_data
       value_list signed_flags = Inr None"
  by (simp add: response_def Const_defs)

theorem response_unknown_function_code_witness:
  "response 7 0 1 [] (Some [1, 0]) (Signed True) = Inr None
     \<and> response 0 0 0 [0, 0] None (SignedSeq [True]) = Inr None"
  using response_unknown_function_code [of 7 0 1 "[]" "Some [1, 0]" "Signed True"]
    response_unknown_function_code [of 0 0 0 "[0, 0]" None "SignedSeq [True]"]
  by simp

subsection \<open>C5: the value of a single coil\<close>

text \<open>
  C5, as stated: every value other than the booleans, \<open>0x0000\<close> and \<open>0xFF00\<close> raises
  \<^verbatim>\<open>ValueError('Illegal coil value')\<close>. The integer 1 is such a value, and the code
  accepts it: \<^verbatim>\<open>1 in [0x0000, 0xFF00, True]\<close> holds in Python since
  \<^verbatim>\<open>1 == True\<close>, and the result is the PDU of \<open>0xFF00\<close>.
\<close>

theorem write_single_coil_counterexample:
  "write_single_coil 0 (PyInt 1) = Inr [5, 0, 0, 0xFF, 0]
     \<and> PyInt 1 \<notin> {PyBool True, PyBool False, PyInt 0x0000, PyInt 0xFF00}"
  by (simp add: write_single_coil_def py_in_def py_eq_def truthy_def pack_field_def
      big_endian16_def WRITE_SINGLE_COIL_def)

text \<open>
  C5, amended: for every address, \<open>True\<close> gives the result of \<open>0xFF00\<close> and
  \<open>False\<close> the result of \<open>0x0000\<close>; the integer 1 is accepted as \<open>True\<close> is;
  every other integer than 0, 1 and \<open>0xFF00\<close> (5 for one) raises
  \<^verbatim>\<open>ValueError('Illegal coil value')\<close>. For an address that is an unsigned 16-bit
  value the accepted values give the bytes code, address, \<open>0xFF00\<close> or \<open>0x0000\<close>.
\<close>

theorem write_single_coil_values:
  "write_single_coil address (PyBool True) = write_single_coil address (PyInt 0xFF00)
 \<and> write_single_coil address (PyBool False) = write_single_coil address (PyInt 0x0000)
 \<and> write_single_coil address (PyInt 1) = write_single_coil address (PyInt 0xFF00)
 \<and> (v \<notin> {PyBool True, PyBool False, PyInt 0x0000, PyInt 1, PyInt 0xFF00} \<longrightarrow>
      write_single_coil address v = Inl (ValueError ''Illegal coil value'')
    \<and> is_IllegalValue (ValueError ''Illegal coil value''))
 \<and> (fmt_range Fmt_H address \<longrightarrow>
      write_single_coil address (PyInt 0xFF00)
        = Inr (word_of_int WRITE_SINGLE_COIL # big_endian16 address @ [0xFF, 0x00])
    \<and> write_single_coil address (PyInt 0x0000)
        = Inr (word_of_int WRITE_SINGLE_COIL # big_endian16 address @ [0x00, 0x00]))"
proof (intro conjI impI)
  show "write_single_coil address (PyBool True) = write_single_coil address (PyInt 0xFF00)"
    by (simp add: write_single_coil_def py_in_def py_eq_def truthy_def)
  show "write_single_coil address (PyBool False) = write_single_coil address (PyInt 0x0000)"
    by (simp add: write_single_coil_def py_in_def py_eq_def truthy_def pack_field_def
        WRITE_SINGLE_COIL_def)
  show "write_single_coil address (PyInt 1) = write_single_coil address (PyInt 0xFF00)"
    by (simp add: write_single_coil_def py_in_def py_eq_def truthy_def)
next
  assume "v \<notin> {PyBool True, PyBool False, PyInt 0x0000, PyInt 1, PyInt 0xFF00}"
  then show "write_single_coil address v = Inl (ValueError ''Illegal coil value'')"
    by (cases v) (auto simp: write_single_coil_def py_in_def py_eq_def)
next
  show "is_IllegalValue (ValueError ''Illegal coil value'')"
    by (simp add: is_IllegalValue_def)
next
  assume a: "fmt_range Fmt_H address"
  then show "write_single_coil address (PyInt 0xFF00)
               = Inr (word_of_int WRITE_SINGLE_COIL # big_endian16 address @ [0xFF, 0x00])"
    by (simp add: write_single_coil_def py_in_def py_eq_def pack_field_def
        big_endian16_def WRITE_SINGLE_COIL_def)
  from a show "write_single_coil address (PyInt 0x0000)
               = Inr (word_of_int WRITE_SINGLE_COIL # big_endian16 address @ [0x00, 0x00])"
    by (simp add: write_single_coil_def py_in_def py_eq_def pack_field_def
        big_endian16_def WRITE_SINGLE_COIL_def)
qed

theorem write_single_coil_values_witness:
  "write_single_coil 258 (PyInt 5) = Inl (ValueError ''Illegal coil value'')
     \<and> write_single_coil 258 (PyBool True) = Inr [5, 1, 2, 0xFF, 0]
     \<and> write_single_coil 258 (PyBool False) = Inr [5, 1, 2, 0, 0]"
  using write_single_coil_values [of 258 "PyInt 5"]
  by (simp add: big_endian16_def WRITE_SINGLE_COIL_def)

subsection \<open>Facts about the validation\<close>

lemma unpack_H: 
  "struct_unpack ([Fmt_H] @ [if s then Fmt_h else Fmt_H]) [a_hi, a_lo, f_hi, f_lo]
     = Inr [unsigned16 a_hi a_lo, if s then signed16 f_hi f_lo else unsigned16 f_hi f_lo]"
  by simp

lemma unpack_H_length:
  assumes "length data \<noteq> 4"
  shows "struct_unpack ([Fmt_H] @ [if s then Fmt_h else Fmt_H]) data = Inl StructError"
proof (cases "struct_unpack ([Fmt_H] @ [if s then Fmt_h else Fmt_H]) data")
  case (Inl e)
  then show ?thesis using struct_unpack_error [OF Inl] by simp
next
  case (Inr vs)
  from struct_unpack_Inr_length [OF Inr] have "length data = 4"
    by (cases s) simp_all
  with assms show ?thesis by simp
qed

lemma validate_four:
  "validate_resp_data [a_hi, a_lo, f_hi, f_lo] function_code address val quantity s =
     (if function_code \<in> {WRITE_SINGLE_COIL, WRITE_SINGLE_REGISTER}
      then Inr (address = unsigned16 a_hi a_lo
                \<and> val = Some (if s then signed16 f_hi f_lo else unsigned16 f_hi f_lo))
      else if function_code \<in> {WRITE_MULTIPLE_COILS, WRITE_MULTIPLE_REGISTERS}
      then Inr (address = unsigned16 a_hi a_lo
                \<and> quantity = Some (if s then signed16 f_hi f_lo else unsigned16 f_hi f_lo))
      else Inr False)"
  unfolding validate_resp_data_def Let_def unpack_H by simp

lemma validate_other:
  "function_code \<notin> {WRITE_SINGLE_COIL, WRITE_SINGLE_REGISTER,
                       WRITE_MULTIPLE_COILS, WRITE_MULTIPLE_REGISTERS}
   \<Longrightarrow> validate_resp_data data function_code address val quantity s = Inr False"
  by (simp add: validate_resp_data_def)

lemma validate_bad_length:
  "function_code \<in> {WRITE_SINGLE_COIL, WRITE_SINGLE_REGISTER,
                       WRITE_MULTIPLE_COILS, WRITE_MULTIPLE_REGISTERS}
   \<Longrightarrow> length data \<noteq> 4
   \<Longrightarrow> validate_resp_data data function_code address val quantity s = Inl StructError"
proof -
  assume fc: "function_code \<in> {WRITE_SINGLE_COIL, WRITE_SINGLE_REGISTER,
                       WRITE_MULTIPLE_COILS, WRITE_MULTIPLE_REGISTERS}"
    and len: "length data \<noteq> 4"
  have u: "struct_unpack ([Fmt_H] @ [if s then Fmt_h else Fmt_H]) data = Inl StructError"
    using len by (rule unpack_H_length)
  show ?thesis
    unfolding validate_resp_data_def Let_def u using fc by (auto simp: Const_defs)
qed

subsection \<open>C7: what the validation compares\<close>

text \<open>
  C7: the data of a write acknowledgement are four bytes, a big-endian 16-bit address and
  a big-endian 16-bit field. For the function codes \<open>WRITE_SINGLE_COIL\<close> and
  \<open>WRITE_SINGLE_REGISTER\<close> \<^verbatim>\<open>validate_resp_data\<close> returns \<^verbatim>\<open>True\<close> exactly
  when the decoded address equals the expected address and the decoded field, read as
  signed or unsigned by the flag, equals the expected value, and \<^verbatim>\<open>False\<close> when
  either differs; for \<open>WRITE_MULTIPLE_COILS\<close> and \<open>WRITE_MULTIPLE_REGISTERS\<close> the
  field is compared with the expected quantity instead; for every other function code the
  result is \<^verbatim>\<open>False\<close>, whatever the data are. The decoding inverts the encoding of
  the requests: the bytes that \<^verbatim>\<open>struct.pack\<close> writes for an address and a value in
  range are accepted for that address and that value, and for no other.
\<close>

theorem validate_resp_data_match:
  "(function_code \<in> {WRITE_SINGLE_COIL, WRITE_SINGLE_REGISTER} \<longrightarrow>
      validate_resp_data [a_hi, a_lo, f_hi, f_lo] function_code address val quantity s
        = Inr (address = unsigned16 a_hi a_lo
               \<and> val = Some (if s then signed16 f_hi f_lo else unsigned16 f_hi f_lo)))
 \<and> (function_code \<in> {WRITE_MULTIPLE_COILS, WRITE_MULTIPLE_REGISTERS} \<longrightarrow>
      validate_resp_data [a_hi, a_lo, f_hi, f_lo] function_code address val quantity s
        = Inr (address = unsigned16 a_hi a_lo
               \<and> quantity = Some (if s then signed16 f_hi f_lo else unsigned16 f_hi f_lo)))
 \<and> (function_code \<notin> {WRITE_SINGLE_COIL, WRITE_SINGLE_REGISTER,
                         WRITE_MULTIPLE_COILS, WRITE_MULTIPLE_REGISTERS} \<longrightarrow>
      validate_resp_data data function_code address val quantity s = Inr False)
 \<and> (fmt_range Fmt_H a \<and> fmt_range (if s then Fmt_h else Fmt_H) v \<longrightarrow>
      validate_resp_data (field_bytes Fmt_H a @ field_bytes (if s then Fmt_h else Fmt_H) v)
          WRITE_SINGLE_REGISTER address val quantity s
        = Inr (address = a \<and> val = Some v)
    \<and> validate_resp_data (field_bytes Fmt_H a @ field_bytes (if s then Fmt_h else Fmt_H) v)
          WRITE_MULTIPLE_REGISTERS address val quantity s
        = Inr (address = a \<and> quantity = Some v))"
proof (intro conjI impI)
  assume "function_code \<in> {WRITE_SINGLE_COIL, WRITE_SINGLE_REGISTER}"
  then show "validate_resp_data [a_hi, a_lo, f_hi, f_lo] function_code address val quantity s
        = Inr (address = unsigned16 a_hi a_lo
               \<and> val = Some (if s then signed16 f_hi f_lo else unsigned16 f_hi f_lo))"
    by (simp only: validate_four if_True)
next
  assume "function_code \<in> {WRITE_MULTIPLE_COILS, WRITE_MULTIPLE_REGISTERS}"
  then show "validate_resp_data [a_hi, a_lo, f_hi, f_lo] function_code address val quantity s
        = Inr (address = unsigned16 a_hi a_lo
               \<and> quantity = Some (if s then signed16 f_hi f_lo else unsigned16 f_hi f_lo))"
    unfolding validate_four by (auto simp: Const_defs)
next
  assume "function_code \<notin> {WRITE_SINGLE_COIL, WRITE_SINGLE_REGISTER,
                         WRITE_MULTIPLE_COILS, WRITE_MULTIPLE_REGISTERS}"
  then show "validate_resp_data data function_code address val quantity s = Inr False"
    by (rule validate_other)
next
  assume h: "fmt_range Fmt_H a \<and> fmt_range (if s then Fmt_h else Fmt_H) v"
  then have a: "0 \<le> a" "a \<le> 65535" by simp_all
  have ua: "unsigned16 (word_of_int (a div 256)) (word_of_int (a mod 256)) = a"
    using a by (rule unsigned16_big_endian)
  have dec: "(if s then signed16 (word_of_int ((v mod 65536) div 256))
                         (word_of_int ((v mod 65536) mod 256))
              else unsigned16 (word_of_int (v div 256)) (word_of_int (v mod 256))) = v"
  proof (cases s)
    case True
    with h have "- 32768 \<le> v" "v \<le> 32767" by simp_all
    then show ?thesis using True by (simp only: signed16_big_endian if_True)
  next
    case False
    with h have "0 \<le> v" "v \<le> 65535" by simp_all
    then show ?thesis using False by (simp only: unsigned16_big_endian if_False)
  qed
  have bytes: "field_bytes Fmt_H a @ field_bytes (if s then Fmt_h else Fmt_H) v
          = (if s then [word_of_int (a div 256), word_of_int (a mod 256),
                        word_of_int ((v mod 65536) div 256), word_of_int ((v mod 65536) mod 256)]
             else [word_of_int (a div 256), word_of_int (a mod 256),
                   word_of_int (v div 256), word_of_int (v mod 256)])"
    by (simp add: big_endian16_def)
  show "validate_resp_data (field_bytes Fmt_H a @ field_bytes (if s then Fmt_h else Fmt_H) v)
          WRITE_SINGLE_REGISTER address val quantity s
        = Inr (address = a \<and> val = Some v)"
    using dec unfolding bytes by (cases s) (auto simp: validate_four ua Const_defs)
  show "validate_resp_data (field_bytes Fmt_H a @ field_bytes (if s then Fmt_h else Fmt_H) v)
          WRITE_MULTIPLE_REGISTERS address val quantity s
        = Inr (address = a \<and> quantity = Some v)"
    using dec unfolding bytes by (cases s) (auto simp: validate_four ua Const_defs)
qed

theorem validate_resp_data_match_witness:
  "validate_resp_data [0, 1, 0xFF, 0xFE] 6 1 (Some (- 2)) None True = Inr True
     \<and> validate_resp_data [0, 1, 0xFF, 0xFE] 6 1 (Some 65534) None True = Inr False
     \<and> validate_resp_data [0, 1, 0xFF, 0xFE] 16 1 None (Some 65534) False = Inr True
     \<and> validate_resp_data [0, 1, 0xFF, 0xFE] 3 1 (Some (- 2)) (Some (- 2)) True = Inr False
     \<and> validate_resp_data [0, 1, 0xFF, 0xFE] 6 2 (Some (- 2)) None True = Inr False"
  using validate_resp_data_match [where function_code = 6 and a_hi = 0 and a_lo = 1
      and f_hi = "0xFF" and f_lo = "0xFE" and address = 1 and val = "Some (- 2)"
      and quantity = "None" and s = True and data = "[0, 1, 0xFF, 0xFE]" and a = 1 and v = 2]
    validate_resp_data_match [where function_code = 6 and a_hi = 0 and a_lo = 1
      and f_hi = "0xFF" and f_lo = "0xFE" and address = 1 and val = "Some 65534"
      and quantity = "None" and s = True and data = "[0, 1, 0xFF, 0xFE]" and a = 1 and v = 2]
    validate_resp_data_match [where function_code = 16 and a_hi = 0 and a_lo = 1
      and f_hi = "0xFF" and f_lo = "0xFE" and address = 1 and val = "None"
      and quantity = "Some 65534" and s = False and data = "[0, 1, 0xFF, 0xFE]" and a = 1 and v = 2]
    validate_resp_data_match [where function_code = 3 and a_hi = 0 and a_lo = 1
      and f_hi = "0xFF" and f_lo = "0xFE" and address = 1 and val = "Some (- 2)"
      and quantity = "Some (- 2)" and s = True and data = "[0, 1, 0xFF, 0xFE]" and a = 1 and v = 2]
    validate_resp_data_match [where function_code = 6 and a_hi = 0 and a_lo = 1
      and f_hi = "0xFF" and f_lo = "0xFE" and address = 2 and val = "Some (- 2)"
      and quantity = "None" and s = True and data = "[0, 1, 0xFF, 0xFE]" and a = 1 and v = 2]
  by (simp add: Const_defs unsigned16_def signed16_def)

subsection \<open>C2: the validation and malformed data\<close>

text \<open>
  C2: \<^verbatim>\<open>validate_resp_data\<close> is to return a boolean for data of any length, and
  its docstring says so (\<^verbatim>\<open>:returns: True if valid, False otherwise\<close>,
  \<^verbatim>\<open>:rtype: bool\<close>). With a write function code the data are handed to
  \<^verbatim>\<open>struct.unpack\<close>, which raises \<^verbatim>\<open>struct.error\<close> when they are not the
  four bytes of the format, and nothing catches it: on the empty byte sequence with the
  function code \<open>WRITE_SINGLE_COIL\<close>, and on three bytes with the function code
  \<open>WRITE_MULTIPLE_REGISTERS\<close>, the call raises instead of returning \<^verbatim>\<open>False\<close>.
\<close>

theorem validate_resp_data_raises:
  "validate_resp_data [] WRITE_SINGLE_COIL 0 (Some 0) None True = Inl StructError
     \<and> validate_resp_data [0, 1, 0] WRITE_MULTIPLE_REGISTERS 1 None (Some 1) False
         = Inl StructError"
  by (simp add: validate_resp_data_def Const_defs)

subsection \<open>Facts about the write requests for several values\<close>

lemma pack_replicate:
  "\<forall>v\<in>set vs. fmt_range c v \<Longrightarrow>
     struct_pack (replicate (length vs) c) vs = Inr (concat (map (field_bytes c) vs))"
  by (induction vs) (simp_all add: pack_field_ok)

lemma concat_field_bytes_B: "concat (map (field_bytes Fmt_B) vs) = map word_of_int vs"
  by (induction vs) simp_all

lemma pack_BHHB:
  assumes "fmt_range Fmt_B c" "fmt_range Fmt_H a" "fmt_range Fmt_H q" "fmt_range Fmt_B n"
  shows "struct_pack ([Fmt_B, Fmt_H, Fmt_H, Fmt_B] @ fmt) ([c, a, q, n] @ vs)
           = (case struct_pack fmt vs of
                Inl e \<Rightarrow> Inl e
              | Inr rest \<Rightarrow>
                  Inr (word_of_int c # big_endian16 a @ big_endian16 q @ [word_of_int n] @ rest))"
  using assms by (simp add: pack_field_def split: sum.splits)

lemma struct_pack_not_ValueError:
  "struct_pack cs vs \<noteq> Inl (ValueError msg)"
  using struct_pack_error [of cs vs "ValueError msg"] by auto

lemma output_value_range:
  assumes "set value_list \<subseteq> {0, 1}"
  shows "\<forall>v\<in>set (output_value value_list). fmt_range Fmt_B v"
proof
  fix v
  assume "v \<in> set (output_value value_list)"
  then obtain g where g: "g \<in> set (sectioned_list value_list)" and v: "v = output_byte g"
    by (auto simp: output_value_def)
  then obtain j where j: "j < (length value_list + 7) div 8"
    and gj: "g = sectioned_list value_list ! j"
    by (auto simp: in_set_conv_nth length_sectioned_list)
  have "set g \<subseteq> {0, 1}"
    using set_section [OF j] assms gj by blast
  then have b: "0 \<le> output_byte g \<and> output_byte g < 2 ^ length g"
    by (rule output_byte_bounds)
  have "length g \<le> 8"
    using length_section(1) [OF j] gj by simp
  then have "(2::int) ^ length g \<le> 2 ^ 8"
    by (rule power_increasing) simp
  with b v show "fmt_range Fmt_B v" by simp
qed

lemma length_output_value:
  "length (output_value value_list) = (length value_list + 7) div 8"
  by (simp add: output_value_def length_sectioned_list)

lemma write_multiple_coils_ok:
  assumes len: "1 \<le> length value_list" "length value_list \<le> 1968"
    and addr: "fmt_range Fmt_H starting_address"
    and bits: "set value_list \<subseteq> {0, 1}"
  shows "write_multiple_coils starting_address value_list
           = Inr (word_of_int WRITE_MULTIPLE_COILS # big_endian16 starting_address
                  @ big_endian16 (int (length value_list))
                  @ [word_of_int ((int (length value_list) - 1) div 8 + 1)]
                  @ map word_of_int (output_value value_list))"
proof -
  have c: "fmt_range Fmt_B WRITE_MULTIPLE_COILS"
    by (simp add: WRITE_MULTIPLE_COILS_def)
  have q: "fmt_range Fmt_H (int (length value_list))"
    using len by simp
  have n: "fmt_range Fmt_B ((int (length value_list) - 1) div 8 + 1)"
    using len by simp
  have out: "struct_pack (replicate (length (output_value value_list)) Fmt_B)
               (output_value value_list)
             = Inr (map word_of_int (output_value value_list))"
    using pack_replicate [OF output_value_range [OF bits]]
    by (simp only: concat_field_bytes_B)
  show ?thesis
    unfolding write_multiple_coils_def Let_def pack_BHHB [OF c addr q n] out
    using len by simp
qed

lemma write_multiple_registers_ok:
  assumes len: "1 \<le> length register_values" "length register_values \<le> 123"
    and addr: "fmt_range Fmt_H starting_address"
    and regs: "\<forall>v\<in>set register_values. fmt_range (if s then Fmt_h else Fmt_H) v"
  shows "write_multiple_registers starting_address register_values s
           = Inr (word_of_int WRITE_MULTIPLE_REGISTERS # big_endian16 starting_address
                  @ big_endian16 (int (length register_values))
                  @ [word_of_int (int (length register_values) * 2)]
                  @ concat (map (field_bytes (if s then Fmt_h else Fmt_H)) register_values))"
proof -
  have c: "fmt_range Fmt_B WRITE_MULTIPLE_REGISTERS"
    by (simp add: WRITE_MULTIPLE_REGISTERS_def)
  have q: "fmt_range Fmt_H (int (length register_values))"
    using len by simp
  have n: "fmt_range Fmt_B (int (length register_values) * 2)"
    using len by simp
  have out: "struct_pack (replicate (length register_values) (if s then Fmt_h else Fmt_H))
               register_values
             = Inr (concat (map (field_bytes (if s then Fmt_h else Fmt_H)) register_values))"
    using regs by (rule pack_replicate)
  show ?thesis
    unfolding write_multiple_registers_def Let_def nat_int pack_BHHB [OF c addr q n] out
    using len by simp
qed

subsection \<open>C6: the write requests for several values\<close>

text \<open>
  C6: \<^verbatim>\<open>write_multiple_coils\<close> raises \<^verbatim>\<open>ValueError('Invalid quantity of outputs')\<close>
  exactly when the length of the value list is outside 1 to 1968; for a length inside, an
  address that is an unsigned 16-bit value and coil values 0 or 1 it returns the PDU code,
  address, quantity, byte count, packed bytes, where the byte count is
  \<open>((len - 1) div 8) + 1\<close>, fits its byte and is the number of packed bytes.
  \<^verbatim>\<open>write_multiple_registers\<close> raises \<^verbatim>\<open>ValueError('Invalid number of registers')\<close>
  exactly when the length is outside 1 to 123; for a length inside, an address in range and
  register values in the range of the flag's format it returns the PDU code, address,
  quantity, byte count, values, where the byte count is twice the quantity, fits its byte
  and is the number of bytes of the values.
\<close>

theorem write_multiple_lengths:
  "(\<not> (1 \<le> length value_list \<and> length value_list \<le> 1968) \<longrightarrow>
      write_multiple_coils starting_address value_list
        = Inl (ValueError ''Invalid quantity of outputs'')
    \<and> is_InvalidQuantity (ValueError ''Invalid quantity of outputs''))
 \<and> (1 \<le> length value_list \<and> length value_list \<le> 1968 \<longrightarrow>
      write_multiple_coils starting_address value_list
        \<noteq> Inl (ValueError ''Invalid quantity of outputs''))
 \<and> (1 \<le> length value_list \<and> length value_list \<le> 1968
      \<and> fmt_range Fmt_H starting_address \<and> set value_list \<subseteq> {0, 1} \<longrightarrow>
      write_multiple_coils starting_address value_list
        = Inr (word_of_int WRITE_MULTIPLE_COILS # big_endian16 starting_address
               @ big_endian16 (int (length value_list))
               @ [word_of_int ((int (length value_list) - 1) div 8 + 1)]
               @ map word_of_int (output_value value_list))
    \<and> uint (word_of_int ((int (length value_list) - 1) div 8 + 1) :: byte)
        = (int (length value_list) - 1) div 8 + 1
    \<and> int (length (output_value value_list)) = (int (length value_list) - 1) div 8 + 1)
 \<and> (\<not> (1 \<le> length register_values \<and> length register_values \<le> 123) \<longrightarrow>
      write_multiple_registers starting_address register_values s
        = Inl (ValueError ''Invalid number of registers'')
    \<and> is_InvalidQuantity (ValueError ''Invalid number of registers''))
 \<and> (1 \<le> length register_values \<and> length register_values \<le> 123 \<longrightarrow>
      write_multiple_registers starting_address register_values s
        \<noteq> Inl (ValueError ''Invalid number of registers''))
 \<and> (1 \<le> length register_values \<and> length register_values \<le> 123
      \<and> fmt_range Fmt_H starting_address
      \<and> (\<forall>v\<in>set register_values. fmt_range (if s then Fmt_h else Fmt_H) v) \<longrightarrow>
      write_multiple_registers starting_address register_values s
        = Inr (word_of_int WRITE_MULTIPLE_REGISTERS # big_endian16 starting_address
               @ big_endian16 (int (length register_values))
               @ [word_of_int (int (length register_values) * 2)]
               @ concat (map (field_bytes (if s then Fmt_h else Fmt_H)) register_values))
    \<and> uint (word_of_int (int (length register_values) * 2) :: byte)
        = 2 * int (length register_values)
    \<and> int (length (concat (map (field_bytes (if s then Fmt_h else Fmt_H)) register_values)))
        = 2 * int (length register_values))"
proof (intro conjI impI)
  assume "\<not> (1 \<le> length value_list \<and> length value_list \<le> 1968)"
  then show "write_multiple_coils starting_address value_list
        = Inl (ValueError ''Invalid quantity of outputs'')"
    by (simp add: write_multiple_coils_def)
next
  show "is_InvalidQuantity (ValueError ''Invalid quantity of outputs'')"
    by (simp add: is_InvalidQuantity_def)
next
  assume "1 \<le> length value_list \<and> length value_list \<le> 1968"
  then show "write_multiple_coils starting_address value_list
        \<noteq> Inl (ValueError ''Invalid quantity of outputs'')"
    by (simp add: write_multiple_coils_def Let_def struct_pack_not_ValueError
        del: struct_pack.simps)
next
  assume h: "1 \<le> length value_list \<and> length value_list \<le> 1968
      \<and> fmt_range Fmt_H starting_address \<and> set value_list \<subseteq> {0, 1}"
  then have len: "1 \<le> length value_list" "length value_list \<le> 1968"
    and addr: "fmt_range Fmt_H starting_address" and bits: "set value_list \<subseteq> {0, 1}"
    by simp_all
  from len addr bits
  show "write_multiple_coils starting_address value_list
        = Inr (word_of_int WRITE_MULTIPLE_COILS # big_endian16 starting_address
               @ big_endian16 (int (length value_list))
               @ [word_of_int ((int (length value_list) - 1) div 8 + 1)]
               @ map word_of_int (output_value value_list))"
    by (rule write_multiple_coils_ok)
  show "uint (word_of_int ((int (length value_list) - 1) div 8 + 1) :: byte)
        = (int (length value_list) - 1) div 8 + 1"
    by (rule uint_byte) (use len in simp_all)
  have "int (length (output_value value_list)) = int (nat ((int (length value_list) - 1) div 8 + 1))"
    by (simp only: length_output_value byte_count)
  also have "\<dots> = (int (length value_list) - 1) div 8 + 1"
    using len by simp
  finally show "int (length (output_value value_list)) = (int (length value_list) - 1) div 8 + 1" .
next
  assume "\<not> (1 \<le> length register_values \<and> length register_values \<le> 123)"
  then show "write_multiple_registers starting_address register_values s
        = Inl (ValueError ''Invalid number of registers'')"
    by (simp add: write_multiple_registers_def)
next
  show "is_InvalidQuantity (ValueError ''Invalid number of registers'')"
    by (simp add: is_InvalidQuantity_def)
next
  assume "1 \<le> length register_values \<and> length register_values \<le> 123"
  then show "write_multiple_registers starting_address register_values s
        \<noteq> Inl (ValueError ''Invalid number of registers'')"
    by (simp add: write_multiple_registers_def Let_def struct_pack_not_ValueError
        del: struct_pack.simps)
next
  assume h: "1 \<le> length register_values \<and> length register_values \<le> 123
      \<and> fmt_range Fmt_H starting_address
      \<and> (\<forall>v\<in>set register_values. fmt_range (if s then Fmt_h else Fmt_H) v)"
  then have len: "1 \<le> length register_values" "length register_values \<le> 123"
    and addr: "fmt_range Fmt_H starting_address"
    and regs: "\<forall>v\<in>set register_values. fmt_range (if s then Fmt_h else Fmt_H) v"
    by simp_all
  from len addr regs
  show "write_multiple_registers starting_address register_values s
        = Inr (word_of_int WRITE_MULTIPLE_REGISTERS # big_endian16 starting_address
               @ big_endian16 (int (length register_values))
               @ [word_of_int (int (length register_values) * 2)]
               @ concat (map (field_bytes (if s then Fmt_h else Fmt_H)) register_values))"
    by (rule write_multiple_registers_ok)
  show "uint (word_of_int (int (length register_values) * 2) :: byte)
        = 2 * int (length register_values)"
    using uint_byte [of "int (length register_values) * 2"] len by simp
  show "int (length (concat (map (field_bytes (if s then Fmt_h else Fmt_H)) register_values)))
        = 2 * int (length register_values)"
    by (induction register_values) (simp_all add: big_endian16_def)
qed

theorem write_multiple_lengths_witness:
  "write_multiple_coils 0 (replicate 1968 1)
     = Inr ([15, 0, 0, 7, 176, 246] @ map word_of_int (output_value (replicate 1968 1)))
   \<and> length (output_value (replicate 1968 1)) = 246
   \<and> write_multiple_coils 0 (replicate 1969 1) = Inl (ValueError ''Invalid quantity of outputs'')
   \<and> write_multiple_coils 0 [] = Inl (ValueError ''Invalid quantity of outputs'')
   \<and> write_multiple_registers 0 [- 1, 2] True = Inr [16, 0, 0, 0, 2, 4, 0xFF, 0xFF, 0, 2]
   \<and> write_multiple_registers 0 (replicate 124 0) True
       = Inl (ValueError ''Invalid number of registers'')"
  using write_multiple_lengths [of "replicate 1968 1" 0 "[- 1, 2]" True]
    write_multiple_lengths [of "replicate 1969 1" 0 "replicate 124 0" True]
    write_multiple_lengths [of "[]" 0 "[- 1, 2]" True]
  by (simp add: big_endian16_def Const_defs)

subsection \<open>Facts about the results of the request encoders\<close>

lemma struct_pack_or_StructError:
  "(case struct_pack cs vs of
      Inr pdu \<Rightarrow> True
    | Inl e \<Rightarrow> is_InvalidQuantity e \<or> is_IllegalValue e \<or> e = StructError)"
  using struct_pack_error [of cs vs] by (auto split: sum.splits)

lemma write_single_register_total:
  "write_single_register address v s =
     (if fmt_range Fmt_H address \<and> fmt_range (if s then Fmt_h else Fmt_H) v
      then Inr (word_of_int WRITE_SINGLE_REGISTER # big_endian16 address
                @ field_bytes (if s then Fmt_h else Fmt_H) v)
      else Inl StructError)"
  by (simp add: write_single_register_def pack_field_def WRITE_SINGLE_REGISTER_def)

lemma write_single_coil_declared:
  assumes "fmt_range Fmt_H address"
  shows "pdu_or_declared_error (write_single_coil address cv)"
  using assms
  by (cases cv)
     (auto simp: write_single_coil_def Let_def py_in_def py_eq_def truthy_def pack_field_def
        pdu_or_declared_error_def is_IllegalValue_def WRITE_SINGLE_COIL_def)

lemma read_declared:
  assumes "fmt_range Fmt_H address" "fmt_range Fmt_B c" "hi \<le> 65535"
    and "is_InvalidQuantity (ValueError msg)"
  shows "pdu_or_declared_error
           (if \<not> (1 \<le> quantity \<and> quantity \<le> hi) then Inl (ValueError msg)
            else struct_pack [Fmt_B, Fmt_H, Fmt_H] [c, address, quantity])"
  using assms by (auto simp: pdu_or_declared_error_def pack_field_def)

subsection \<open>C3: the results of the request encoders\<close>

text \<open>
  C3, as stated: every operation of the request encoder, on all integer inputs, returns a
  PDU or fails with \<open>InvalidQuantity\<close> or \<open>IllegalValue\<close>, and
  \<^verbatim>\<open>write_single_register\<close> returns a PDU for every integer register value.
  \<^verbatim>\<open>write_single_register\<close> has no check of its own and hands the value to
  \<^verbatim>\<open>struct.pack('>BHh', ...)\<close>; a register holds 16 bits, and for the value 70000
  \<^verbatim>\<open>struct.pack\<close> raises \<^verbatim>\<open>struct.error\<close>, which is neither a PDU nor one of the
  two failures.
\<close>

theorem write_single_register_counterexample:
  "write_single_register 0 70000 True = Inl StructError
     \<and> \<not> pdu_or_declared_error (write_single_register 0 70000 True)"
  by (simp add: write_single_register_def pack_field_def WRITE_SINGLE_REGISTER_def
      pdu_or_declared_error_def is_InvalidQuantity_def is_IllegalValue_def)

text \<open>
  C3, amended: on all integer inputs every operation returns a PDU or fails with
  \<open>InvalidQuantity\<close>, \<open>IllegalValue\<close> or the \<^verbatim>\<open>struct.error\<close> of a value that
  does not fit its field. When the address is an unsigned 16-bit value, the coil values
  are 0 or 1 and the register values are in the range of the flag's format (signed or
  unsigned 16 bit), the result is a PDU or one of the two failures. In particular
  \<^verbatim>\<open>write_single_register\<close> returns the PDU code, address, value exactly when
  address and value are in these ranges, under either setting of the flag, and raises
  \<^verbatim>\<open>struct.error\<close> otherwise.
\<close>

theorem request_encoder_results:
  "(case read_coils address quantity of
      Inr pdu \<Rightarrow> True
    | Inl e \<Rightarrow> is_InvalidQuantity e \<or> is_IllegalValue e \<or> e = StructError)
 \<and> (case read_discrete_inputs address quantity of
      Inr pdu \<Rightarrow> True
    | Inl e \<Rightarrow> is_InvalidQuantity e \<or> is_IllegalValue e \<or> e = StructError)
 \<and> (case read_holding_registers address quantity of
      Inr pdu \<Rightarrow> True
    | Inl e \<Rightarrow> is_InvalidQuantity e \<or> is_IllegalValue e \<or> e = StructError)
 \<and> (case read_input_registers address quantity of
      Inr pdu \<Rightarrow> True
    | Inl e \<Rightarrow> is_InvalidQuantity e \<or> is_IllegalValue e \<or> e = StructError)
 \<and> (case write_single_coil address coil_value of
      Inr pdu \<Rightarrow> True
    | Inl e \<Rightarrow> is_InvalidQuantity e \<or> is_IllegalValue e \<or> e = StructError)
 \<and> (case write_single_register address register_value s of
      Inr pdu \<Rightarrow> True
    | Inl e \<Rightarrow> is_InvalidQuantity e \<or> is_IllegalValue e \<or> e = StructError)
 \<and> (case write_multiple_coils address value_list of
      Inr pdu \<Rightarrow> True
    | Inl e \<Rightarrow> is_InvalidQuantity e \<or> is_IllegalValue e \<or> e = StructError)
 \<and> (case write_multiple_registers address register_values s of
      Inr pdu \<Rightarrow> True
    | Inl e \<Rightarrow> is_InvalidQuantity e \<or> is_IllegalValue e \<or> e = StructError)
 \<and> (fmt_range Fmt_H address \<longrightarrow>
        pdu_or_declared_error (read_coils address quantity)
      \<and> pdu_or_declared_error (read_discrete_inputs address quantity)
      \<and> pdu_or_declared_error (read_holding_registers address quantity)
      \<and> pdu_or_declared_error (read_input_registers address quantity)
      \<and> pdu_or_declared_error (write_single_coil address coil_value))
 \<and> (fmt_range Fmt_H address \<and> set value_list \<subseteq> {0, 1} \<longrightarrow>
        pdu_or_declared_error (write_multiple_coils address value_list))
 \<and> (fmt_range Fmt_H address
      \<and> (\<forall>v\<in>set register_values. fmt_range (if s then Fmt_h else Fmt_H) v) \<longrightarrow>
        pdu_or_declared_error (write_multiple_registers address register_values s))
 \<and> write_single_register address register_value s =
       (if fmt_range Fmt_H address \<and> fmt_range (if s then Fmt_h else Fmt_H) register_value
        then Inr (word_of_int WRITE_SINGLE_REGISTER # big_endian16 address
                  @ field_bytes (if s then Fmt_h else Fmt_H) register_value)
        else Inl StructError)"
proof (intro conjI impI)
  show "case read_coils address quantity of
      Inr pdu \<Rightarrow> True
    | Inl e \<Rightarrow> is_InvalidQuantity e \<or> is_IllegalValue e \<or> e = StructError"
    by (simp add: read_coils_def struct_pack_or_StructError is_InvalidQuantity_def
        del: struct_pack.simps)
  show "case read_discrete_inputs address quantity of
      Inr pdu \<Rightarrow> True
    | Inl e \<Rightarrow> is_InvalidQuantity e \<or> is_IllegalValue e \<or> e = StructError"
    by (simp add: read_discrete_inputs_def struct_pack_or_StructError is_InvalidQuantity_def
        del: struct_pack.simps)
  show "case read_holding_registers address quantity of
      Inr pdu \<Rightarrow> True
    | Inl e \<Rightarrow> is_InvalidQuantity e \<or> is_IllegalValue e \<or> e = StructError"
    by (simp add: read_holding_registers_def struct_pack_or_StructError
        is_InvalidQuantity_def del: struct_pack.simps)
  show "case read_input_registers address quantity of
      Inr pdu \<Rightarrow> True
    | Inl e \<Rightarrow> is_InvalidQuantity e \<or> is_IllegalValue e \<or> e = StructError"
    by (simp add: read_input_registers_def struct_pack_or_StructError
        is_InvalidQuantity_def del: struct_pack.simps)
  show "case write_single_coil address coil_value of
      Inr pdu \<Rightarrow> True
    | Inl e \<Rightarrow> is_InvalidQuantity e \<or> is_IllegalValue e \<or> e = StructError"
    by (simp add: write_single_coil_def Let_def struct_pack_or_StructError
        is_IllegalValue_def del: struct_pack.simps)
  show "case write_single_register address register_value s of
      Inr pdu \<Rightarrow> True
    | Inl e \<Rightarrow> is_InvalidQuantity e \<or> is_IllegalValue e \<or> e = StructError"
    by (simp add: write_single_register_def Let_def struct_pack_or_StructError
        del: struct_pack.simps)
  show "case write_multiple_coils address value_list of
      Inr pdu \<Rightarrow> True
    | Inl e \<Rightarrow> is_InvalidQuantity e \<or> is_IllegalValue e \<or> e = StructError"
    by (simp add: write_multiple_coils_def Let_def struct_pack_or_StructError
        is_InvalidQuantity_def del: struct_pack.simps)
  show "case write_multiple_registers address register_values s of
      Inr pdu \<Rightarrow> True
    | Inl e \<Rightarrow> is_InvalidQuantity e \<or> is_IllegalValue e \<or> e = StructError"
    by (simp add: write_multiple_registers_def Let_def struct_pack_or_StructError
        is_InvalidQuantity_def del: struct_pack.simps)
next
  assume a: "fmt_range Fmt_H address"
  show "pdu_or_declared_error (read_coils address quantity)"
    unfolding read_coils_def
    by (rule read_declared [OF a]) (simp_all add: Const_defs is_InvalidQuantity_def)
  show "pdu_or_declared_error (read_discrete_inputs address quantity)"
    unfolding read_discrete_inputs_def
    by (rule read_declared [OF a]) (simp_all add: Const_defs is_InvalidQuantity_def)
  show "pdu_or_declared_error (read_holding_registers address quantity)"
    unfolding read_holding_registers_def
    by (rule read_declared [OF a]) (simp_all add: Const_defs is_InvalidQuantity_def)
  show "pdu_or_declared_error (read_input_registers address quantity)"
    unfolding read_input_registers_def
    by (rule read_declared [OF a]) (simp_all add: Const_defs is_InvalidQuantity_def)
  show "pdu_or_declared_error (write_single_coil address coil_value)"
    using a by (rule write_single_coil_declared)
next
  assume h: "fmt_range Fmt_H address \<and> set value_list \<subseteq> {0, 1}"
  show "pdu_or_declared_error (write_multiple_coils address value_list)"
  proof (cases "1 \<le> length value_list \<and> length value_list \<le> 1968")
    case True
    then show ?thesis
      using write_multiple_coils_ok [of value_list address] h
      by (simp add: pdu_or_declared_error_def)
  next
    case False
    then show ?thesis
      by (simp add: write_multiple_coils_def pdu_or_declared_error_def
          is_InvalidQuantity_def)
  qed
next
  assume h: "fmt_range Fmt_H address
      \<and> (\<forall>v\<in>set register_values. fmt_range (if s then Fmt_h else Fmt_H) v)"
  show "pdu_or_declared_error (write_multiple_registers address register_values s)"
  proof (cases "1 \<le> length register_values \<and> length register_values \<le> 123")
    case True
    then show ?thesis
      using write_multiple_registers_ok [of register_values address s] h
      by (simp add: pdu_or_declared_error_def)
  next
    case False
    then show ?thesis
      by (simp add: write_multiple_registers_def pdu_or_declared_error_def
          is_InvalidQuantity_def)
  qed
next
  show "write_single_register address register_value s =
       (if fmt_range Fmt_H address \<and> fmt_range (if s then Fmt_h else Fmt_H) register_value
        then Inr (word_of_int WRITE_SINGLE_REGISTER # big_endian16 address
                  @ field_bytes (if s then Fmt_h else Fmt_H) register_value)
        else Inl StructError)"
    by (rule write_single_register_total)
qed

theorem request_encoder_results_witness:
  "write_single_register 1 (- 2) True = Inr [6, 0, 1, 0xFF, 0xFE]
     \<and> write_single_register 1 65534 False = Inr [6, 0, 1, 0xFF, 0xFE]
     \<and> write_single_register 1 65534 True = Inl StructError
     \<and> pdu_or_declared_error (read_coils 1 2001)
     \<and> pdu_or_declared_error (write_single_coil 1 (PyInt 5))
     \<and> pdu_or_declared_error (write_multiple_coils 1 [1, 0])
     \<and> pdu_or_declared_error (write_multiple_registers 1 [1, 2] True)"
  using request_encoder_results [of 1 2001 "PyInt 5" "- 2" True "[1, 0]" "[1, 2]"]
    request_encoder_results [of 1 2001 "PyInt 5" 65534 False "[1, 0]" "[1, 2]"]
    request_encoder_results [of 1 2001 "PyInt 5" 65534 True "[1, 0]" "[1, 2]"]
  by (simp add: big_endian16_def WRITE_SINGLE_REGISTER_def)

end
